theory Spec2Isabelle
  imports Complex_Main "HOL-Library.Sublist"
begin

section \<open>Python strings\<close>

text \<open>
  A Python \<^verbatim>\<open>str\<close> is modelled as a \<^typ>\<open>string\<close>: a list of characters, each read as
  a code point below 256. Slicing \<^verbatim>\<open>s[:n]\<close> is \<^term>\<open>take n s\<close>, concatenation is
  \<open>@\<close>, \<^verbatim>\<open>s.startswith(p)\<close> is \<^term>\<open>prefix p s\<close>.
\<close>

definition squote :: char where
  "squote = CHR 0x27"

definition dquote :: char where
  "dquote = CHR 0x22"

definition backslash :: char where
  "backslash = CHR 0x5C"

text \<open>The characters below 256 for which \<^verbatim>\<open>str.isspace\<close> holds; \<^verbatim>\<open>str.strip()\<close> removes them.\<close>

definition py_isspace :: "char \<Rightarrow> bool" where
  "py_isspace c = (c \<in> set [CHR 0x09, CHR 0x0A, CHR 0x0B, CHR 0x0C, CHR 0x0D, CHR 0x1C,
     CHR 0x1D, CHR 0x1E, CHR 0x1F, CHR 0x20, CHR 0x85, CHR 0xA0])"

fun rstrip :: "string \<Rightarrow> string" where
  "rstrip [] = []"
| "rstrip (c # cs) =
     (case rstrip cs of [] \<Rightarrow> (if py_isspace c then [] else [c]) | d # ds \<Rightarrow> c # d # ds)"

definition strip :: "string \<Rightarrow> string" where
  "strip s = rstrip (dropWhile py_isspace s)"

text \<open>\<^verbatim>\<open>sub in s\<close>: \<open>sub\<close> occurs in \<open>s\<close> as a contiguous substring.\<close>

fun str_contains :: "string \<Rightarrow> string \<Rightarrow> bool" where
  "str_contains sub [] = (sub = [])"
| "str_contains sub (c # cs) = (prefix sub (c # cs) \<or> str_contains sub cs)"

text \<open>\<^verbatim>\<open>str.lower()\<close> on code points below 256: the ASCII capitals and the Latin-1 capitals
  (0xC0 to 0xDE without the multiplication sign 0xD7) move up by 0x20.\<close>

definition upper_chars :: "char list" where
  "upper_chars = ''ABCDEFGHIJKLMNOPQRSTUVWXYZ'' @
     [CHR 0xC0, CHR 0xC1, CHR 0xC2, CHR 0xC3, CHR 0xC4, CHR 0xC5, CHR 0xC6, CHR 0xC7,
      CHR 0xC8, CHR 0xC9, CHR 0xCA, CHR 0xCB, CHR 0xCC, CHR 0xCD, CHR 0xCE, CHR 0xCF,
      CHR 0xD0, CHR 0xD1, CHR 0xD2, CHR 0xD3, CHR 0xD4, CHR 0xD5, CHR 0xD6,
      CHR 0xD8, CHR 0xD9, CHR 0xDA, CHR 0xDB, CHR 0xDC, CHR 0xDD, CHR 0xDE]"

definition lower_chars :: "char list" where
  "lower_chars = ''abcdefghijklmnopqrstuvwxyz'' @
     [CHR 0xE0, CHR 0xE1, CHR 0xE2, CHR 0xE3, CHR 0xE4, CHR 0xE5, CHR 0xE6, CHR 0xE7,
      CHR 0xE8, CHR 0xE9, CHR 0xEA, CHR 0xEB, CHR 0xEC, CHR 0xED, CHR 0xEE, CHR 0xEF,
      CHR 0xF0, CHR 0xF1, CHR 0xF2, CHR 0xF3, CHR 0xF4, CHR 0xF5, CHR 0xF6,
      CHR 0xF8, CHR 0xF9, CHR 0xFA, CHR 0xFB, CHR 0xFC, CHR 0xFD, CHR 0xFE]"

definition lower_char :: "char \<Rightarrow> char" where
  "lower_char c = (case map_of (zip upper_chars lower_chars) c of Some d \<Rightarrow> d | None \<Rightarrow> c)"

definition lower :: "string \<Rightarrow> string" where
  "lower s = map lower_char s"

text \<open>\<^verbatim>\<open>s.replace(old, new)\<close> for a non-empty \<open>old\<close>: the occurrences are replaced from the
  left and do not overlap. The counter is the number of characters of a match still to skip.\<close>

fun replace_from :: "string \<Rightarrow> string \<Rightarrow> nat \<Rightarrow> string \<Rightarrow> string" where
  "replace_from old new k [] = []"
| "replace_from old new (Suc k) (c # cs) = replace_from old new k cs"
| "replace_from old new 0 (c # cs) =
     (if prefix old (c # cs) then new @ replace_from old new (length old - 1) cs
      else c # replace_from old new 0 cs)"

definition replace :: "string \<Rightarrow> string \<Rightarrow> string \<Rightarrow> string" where
  "replace s old new = replace_from old new 0 s"

text \<open>\<^verbatim>\<open>str(i)\<close> of an integer: decimal digits, with a minus sign when negative.\<close>

definition digit_char :: "nat \<Rightarrow> char" where
  "digit_char d = ''0123456789'' ! d"

fun str_nat :: "nat \<Rightarrow> string" where
  "str_nat n = (if n < 10 then [digit_char n] else str_nat (n div 10) @ [digit_char (n mod 10)])"

declare str_nat.simps [simp del]

definition str_int :: "int \<Rightarrow> string" where
  "str_int i = (if i < 0 then CHR ''-'' # str_nat (nat (- i)) else str_nat (nat i))"

section \<open>Exceptions\<close>

text \<open>
  Every raise is a value. \<open>CompileError\<close> is the executor's own exception and carries
  its message; the others are the built-in exceptions the library calls below raise.
  \<open>NotModelled\<close> is not an exception: it marks a format string whose rendering is
  outside the fragment of \<^verbatim>\<open>str.format\<close> modelled here.
\<close>

datatype py_error =
    CompileError string
  | ValueError
  | KeyError
  | IndexError
  | StopIteration
  | OSError
  | NotModelled

fun cons_ok :: "'a \<Rightarrow> py_error + 'a list \<Rightarrow> py_error + 'a list" where
  "cons_ok x (Inl e) = Inl e"
| "cons_ok x (Inr xs) = Inr (x # xs)"

fun append_ok :: "'a list \<Rightarrow> py_error + 'a list \<Rightarrow> py_error + 'a list" where
  "append_ok xs (Inl e) = Inl e"
| "append_ok xs (Inr ys) = Inr (xs @ ys)"

section \<open>\<^verbatim>\<open>str.format\<close> with keyword arguments only\<close>

text \<open>
  \<^verbatim>\<open>s.format(**kw)\<close> scans \<open>s\<close> from the left. \<^verbatim>\<open>{{\<close> and \<^verbatim>\<open>}}\<close> give one brace; a
  single \<^verbatim>\<open>}\<close>, or a \<^verbatim>\<open>{\<close> at the end, is a ValueError. A replacement field runs to its
  closing brace: an empty or numeric name indexes the (empty) positional arguments and is
  an IndexError (a ValueError when the number exceeds the largest index of a 64-bit
  build); any other name is looked up among the keywords, a KeyError when absent. The
  values are strings or integers already turned into text, which is what a field without
  conversion and format specification renders. Fields with an attribute or index accessor,
  a conversion or a format specification are not modelled.
\<close>

definition is_digit :: "char \<Rightarrow> bool" where
  "is_digit c = (c \<in> set ''0123456789'')"

definition digit_val :: "char \<Rightarrow> int" where
  "digit_val c = (case map_of (zip ''0123456789'' [0, 1, 2, 3, 4, 5, 6, 7, 8, 9]) c of
     Some d \<Rightarrow> d | None \<Rightarrow> 0)"

definition digits_val :: "string \<Rightarrow> int" where
  "digits_val s = foldl (\<lambda>acc c. acc * 10 + digit_val c) 0 s"

definition PY_SSIZE_T_MAX :: int where
  "PY_SSIZE_T_MAX = 9223372036854775807"

definition lookup_field :: "(string \<times> string) list \<Rightarrow> string \<Rightarrow> py_error + string" where
  "lookup_field kw name =
     (if list_all is_digit name then
        (if digits_val name \<le> PY_SSIZE_T_MAX then Inl IndexError else Inl ValueError)
      else case map_of kw name of None \<Rightarrow> Inl KeyError | Some v \<Rightarrow> Inr v)"

datatype fmt_state = InText | InField string

fun format_from :: "(string \<times> string) list \<Rightarrow> fmt_state \<Rightarrow> string \<Rightarrow> py_error + string" where
  "format_from kw InText [] = Inr []"
| "format_from kw InText (c # cs) =
     (if c = CHR ''{'' then
        (case cs of
           [] \<Rightarrow> Inl ValueError
         | d # ds \<Rightarrow> if d = CHR ''{'' then cons_ok CHR ''{'' (format_from kw InText ds)
                     else format_from kw (InField []) cs)
      else if c = CHR ''}'' then
        (case cs of
           [] \<Rightarrow> Inl ValueError
         | d # ds \<Rightarrow> if d = CHR ''}'' then cons_ok CHR ''}'' (format_from kw InText ds)
                     else Inl ValueError)
      else cons_ok c (format_from kw InText cs))"
| "format_from kw (InField name) [] = Inl ValueError"
| "format_from kw (InField name) (c # cs) =
     (if c = CHR ''}'' then
        (case lookup_field kw name of
           Inl e \<Rightarrow> Inl e
         | Inr v \<Rightarrow> append_ok v (format_from kw InText cs))
      else if c = CHR ''{'' then Inl ValueError
      else if c \<in> set ''.[:!'' then Inl NotModelled
      else format_from kw (InField (name @ [c])) cs)"

definition py_format :: "string \<Rightarrow> (string \<times> string) list \<Rightarrow> py_error + string" where
  "py_format s kw = format_from kw InText s"

section \<open>\<^verbatim>\<open>shlex.quote\<close> and \<^verbatim>\<open>shlex.split\<close>\<close>

text \<open>\<^verbatim>\<open>shlex.quote\<close>: a string of safe characters (ASCII letters, digits and
  \<^verbatim>\<open>_@%+=:,./-\<close>) is returned as it is, the empty string as two single quotes, any other
  string in single quotes with each single quote inside written \<^verbatim>\<open>'"'"'\<close>.\<close>

definition is_safe_char :: "char \<Rightarrow> bool" where
  "is_safe_char c = (c \<in> set (''abcdefghijklmnopqrstuvwxyz'' @ ''ABCDEFGHIJKLMNOPQRSTUVWXYZ''
     @ ''0123456789'' @ ''_@%+=:,./-''))"

definition shlex_quote :: "string \<Rightarrow> string" where
  "shlex_quote s =
     (if s = [] then [squote, squote]
      else if list_all is_safe_char s then s
      else [squote] @ replace s [squote] [squote, dquote, squote, dquote, squote] @ [squote])"

text \<open>
  \<^verbatim>\<open>shlex.split(s)\<close> is the POSIX-mode lexer with \<open>whitespace_split\<close> set and no comment
  characters. Its states are: between tokens (\<open>Blank\<close>), inside a word (\<open>Word\<close>), inside
  quotes (\<open>Quoted q\<close>), and after a backslash (\<open>Escaped\<close>, remembering the state to return
  to: \<open>None\<close> for a word, \<open>Some q\<close> for the quotes \<open>q\<close>). \<open>tok\<close> is the token read so far and
  \<open>quoted\<close> records that the token had a quoted part, so that an empty quoted token is
  still emitted. Input that ends inside quotes or after a backslash is a ValueError.
\<close>

definition shlex_whitespace :: "char \<Rightarrow> bool" where
  "shlex_whitespace c = (c \<in> set [CHR '' '', CHR 0x09, CHR 0x0D, CHR 0x0A])"

definition shlex_quotes :: "char \<Rightarrow> bool" where
  "shlex_quotes c = (c = squote \<or> c = dquote)"

datatype lex_state = Blank | Word | Quoted char | Escaped "char option"

fun read_tokens :: "lex_state \<Rightarrow> string \<Rightarrow> bool \<Rightarrow> string \<Rightarrow> py_error + string list" where
  "read_tokens Blank tok quoted [] = Inr []"
| "read_tokens Word tok quoted [] = (if tok \<noteq> [] \<or> quoted then Inr [tok] else Inr [])"
| "read_tokens (Quoted q) tok quoted [] = Inl ValueError"
| "read_tokens (Escaped st) tok quoted [] = Inl ValueError"
| "read_tokens Blank tok quoted (c # cs) =
     (if shlex_whitespace c then read_tokens Blank tok quoted cs
      else if c = backslash then read_tokens (Escaped None) tok quoted cs
      else if shlex_quotes c then read_tokens (Quoted c) tok quoted cs
      else read_tokens Word [c] quoted cs)"
| "read_tokens Word tok quoted (c # cs) =
     (if shlex_whitespace c then
        (if tok \<noteq> [] \<or> quoted then cons_ok tok (read_tokens Blank [] False cs)
         else read_tokens Blank tok quoted cs)
      else if shlex_quotes c then read_tokens (Quoted c) tok quoted cs
      else if c = backslash then read_tokens (Escaped None) tok quoted cs
      else read_tokens Word (tok @ [c]) quoted cs)"
| "read_tokens (Quoted q) tok quoted (c # cs) =
     (if c = q then read_tokens Word tok True cs
      else if c = backslash \<and> q = dquote then read_tokens (Escaped (Some q)) tok True cs
      else read_tokens (Quoted q) (tok @ [c]) True cs)"
| "read_tokens (Escaped None) tok quoted (c # cs) = read_tokens Word (tok @ [c]) quoted cs"
| "read_tokens (Escaped (Some q)) tok quoted (c # cs) =
     (if c \<noteq> backslash \<and> c \<noteq> q then read_tokens (Quoted q) (tok @ [backslash, c]) quoted cs
      else read_tokens (Quoted q) (tok @ [c]) quoted cs)"

definition shlex_split :: "string \<Rightarrow> py_error + string list" where
  "shlex_split s = read_tokens Blank [] False s"

section \<open>The JVM executor\<close>

subsection \<open>What the module imports\<close>

text \<open>
  \<^verbatim>\<open>ProcessExecuteResult\<close> is built in \<open>execute_script\<close> from \<open>stdout\<close>, \<open>stderr\<close>,
  \<open>exit_code\<close> and \<open>cost\<close>. Its \<open>success\<close> attribute and the two exit-code constants are
  declared in the imported module \<^verbatim>\<open>app.libs.executors.executor\<close>; they are parameters of
  the model, collected in \<open>executor_module\<close>.
\<close>

record process_execute_result =
  stdout :: string
  stderr :: string
  exit_code :: int
  cost :: real

record executor_module =
  COMPILE_ERROR_EXIT_CODE :: int
  TIMEOUT_EXIT_CODE :: int
  success :: "process_execute_result \<Rightarrow> bool"

subsection \<open>The guard template\<close>

text \<open>The triple-quoted literal, line by line, and the template: the literal stripped.\<close>

definition RESOURCE_LIMIT_LITERAL :: string where
  \<open>RESOURCE_LIMIT_LITERAL =
     ''\<newline>'' @
     ''import java.lang.management.ManagementFactory;\<newline>'' @
     ''import java.lang.management.MemoryMXBean;\<newline>'' @
     ''import java.util.concurrent.TimeUnit;\<newline>'' @
     ''\<newline>'' @
     ''public class ResourceLimit {{\<newline>'' @
     ''    private static final long startTime = System.nanoTime();\<newline>'' @
     ''    private static final long timeoutNanos = {timeout} * 1_000_000L; // Convert to nanoseconds\<newline>'' @
     ''    private static final long memoryLimitBytes = {memory_limit};\<newline>'' @
     ''\<newline>'' @
     ''    static {{\<newline>'' @
     ''        // Set up timeout handler\<newline>'' @
     ''        Thread timeoutThread = new Thread(() -> {{\<newline>'' @
     ''            try {{\<newline>'' @
     ''                Thread.sleep({timeout});\<newline>'' @
     ''                System.err.println("Suicide from timeout.");\<newline>'' @
     ''                System.exit({TIMEOUT_EXIT_CODE});\<newline>'' @
     ''            }} catch (InterruptedException e) {{\<newline>'' @
     ''                // Normal exit\<newline>'' @
     ''            }}\<newline>'' @
     ''        }});\<newline>'' @
     ''        timeoutThread.setDaemon(true);\<newline>'' @
     ''        timeoutThread.start();\<newline>'' @
     ''\<newline>'' @
     ''        // Memory monitoring (optional - JVM handles this)\<newline>'' @
     ''        if (memoryLimitBytes > 0) {{\<newline>'' @
     ''            Thread memoryThread = new Thread(() -> {{\<newline>'' @
     ''                while (true) {{\<newline>'' @
     ''                    try {{\<newline>'' @
     ''                        MemoryMXBean memoryBean = ManagementFactory.getMemoryMXBean();\<newline>'' @
     ''                        long usedMemory = memoryBean.getHeapMemoryUsage().getUsed();\<newline>'' @
     ''                        if (usedMemory > memoryLimitBytes) {{\<newline>'' @
     ''                            System.err.println("Memory limit exceeded.");\<newline>'' @
     ''                            System.exit({TIMEOUT_EXIT_CODE});\<newline>'' @
     ''                        }}\<newline>'' @
     ''                        Thread.sleep(100); // Check every 100ms\<newline>'' @
     ''                    }} catch (Exception e) {{\<newline>'' @
     ''                        break;\<newline>'' @
     ''                    }}\<newline>'' @
     ''                }}\<newline>'' @
     ''            }});\<newline>'' @
     ''            memoryThread.setDaemon(true);\<newline>'' @
     ''            memoryThread.start();\<newline>'' @
     ''        }}\<newline>'' @
     ''    }}\<newline>'' @
     ''\<newline>'' @
     ''    public static void checkTimeout() {{\<newline>'' @
     ''        long currentTime = System.nanoTime();\<newline>'' @
     ''        if (currentTime - startTime > timeoutNanos) {{\<newline>'' @
     ''            System.err.println("Suicide from timeout.");\<newline>'' @
     ''            System.exit({TIMEOUT_EXIT_CODE});\<newline>'' @
     ''        }}\<newline>'' @
     ''    }}\<newline>'' @
     ''}}\<newline>''\<close>

definition RESOURCE_LIMIT_TEMPLATE :: string where
  "RESOURCE_LIMIT_TEMPLATE = strip RESOURCE_LIMIT_LITERAL"

text \<open>The text the template renders to, with \<open>t\<close>, \<open>m\<close> and \<open>c\<close> in the places of
  \<^verbatim>\<open>{timeout}\<close>, \<^verbatim>\<open>{memory_limit}\<close> and \<^verbatim>\<open>{TIMEOUT_EXIT_CODE}\<close> (see \<open>format_template\<close> below).\<close>

definition resource_limit_java :: "string \<Rightarrow> string \<Rightarrow> string \<Rightarrow> string" where
  \<open>resource_limit_java t m c =
     ''import java.lang.management.ManagementFactory;\<newline>'' @
     ''import java.lang.management.MemoryMXBean;\<newline>'' @
     ''import java.util.concurrent.TimeUnit;\<newline>'' @
     ''\<newline>'' @
     ''public class ResourceLimit {\<newline>'' @
     ''    private static final long startTime = System.nanoTime();\<newline>'' @
     ''    private static final long timeoutNanos = '' @ t @ '' * 1_000_000L; // Convert to nanoseconds\<newline>'' @
     ''    private static final long memoryLimitBytes = '' @ m @ '';\<newline>'' @
     ''\<newline>'' @
     ''    static {\<newline>'' @
     ''        // Set up timeout handler\<newline>'' @
     ''        Thread timeoutThread = new Thread(() -> {\<newline>'' @
     ''            try {\<newline>'' @
     ''                Thread.sleep('' @ t @ '');\<newline>'' @
     ''                System.err.println("Suicide from timeout.");\<newline>'' @
     ''                System.exit('' @ c @ '');\<newline>'' @
     ''            } catch (InterruptedException e) {\<newline>'' @
     ''                // Normal exit\<newline>'' @
     ''            }\<newline>'' @
     ''        });\<newline>'' @
     ''        timeoutThread.setDaemon(true);\<newline>'' @
     ''        timeoutThread.start();\<newline>'' @
     ''\<newline>'' @
     ''        // Memory monitoring (optional - JVM handles this)\<newline>'' @
     ''        if (memoryLimitBytes > 0) {\<newline>'' @
     ''            Thread memoryThread = new Thread(() -> {\<newline>'' @
     ''                while (true) {\<newline>'' @
     ''                    try {\<newline>'' @
     ''                        MemoryMXBean memoryBean = ManagementFactory.getMemoryMXBean();\<newline>'' @
     ''                        long usedMemory = memoryBean.getHeapMemoryUsage().getUsed();\<newline>'' @
     ''                        if (usedMemory > memoryLimitBytes) {\<newline>'' @
     ''                            System.err.println("Memory limit exceeded.");\<newline>'' @
     ''                            System.exit('' @ c @ '');\<newline>'' @
     ''                        }\<newline>'' @
     ''                        Thread.sleep(100); // Check every 100ms\<newline>'' @
     ''                    } catch (Exception e) {\<newline>'' @
     ''                        break;\<newline>'' @
     ''                    }\<newline>'' @
     ''                }\<newline>'' @
     ''            });\<newline>'' @
     ''            memoryThread.setDaemon(true);\<newline>'' @
     ''            memoryThread.start();\<newline>'' @
     ''        }\<newline>'' @
     ''    }\<newline>'' @
     ''\<newline>'' @
     ''    public static void checkTimeout() {\<newline>'' @
     ''        long currentTime = System.nanoTime();\<newline>'' @
     ''        if (currentTime - startTime > timeoutNanos) {\<newline>'' @
     ''            System.err.println("Suicide from timeout.");\<newline>'' @
     ''            System.exit('' @ c @ '');\<newline>'' @
     ''        }\<newline>'' @
     ''    }\<newline>'' @
     ''}''\<close>

subsection \<open>The executor object\<close>

record jvm_executor =
  compiler_cl :: string
  run_cl :: string
  timeout :: "int option"
  memory_limit :: "int option"

text \<open>Truth value of an optional integer: \<^verbatim>\<open>None\<close> and \<open>0\<close> are false.
  \<^verbatim>\<open>x or 0\<close> is \<open>x\<close> when \<open>x\<close> is true and \<open>0\<close> otherwise.\<close>

definition truthy :: "int option \<Rightarrow> bool" where
  "truthy x = (case x of None \<Rightarrow> False | Some n \<Rightarrow> n \<noteq> 0)"

definition or_zero :: "int option \<Rightarrow> int" where
  "or_zero x = (case x of None \<Rightarrow> 0 | Some n \<Rightarrow> if n \<noteq> 0 then n else 0)"

subsection \<open>\<open>setup_command\<close>, block by block\<close>

record dialect =
  source_file :: string
  class_name :: string
  is_kotlin :: bool

definition detect_dialect :: "string \<Rightarrow> string \<Rightarrow> dialect" where
  "detect_dialect tmp_path script =
     (if prefix ''public class'' (strip script) \<or> str_contains ''class '' (take 200 script) then
        \<lparr>source_file = tmp_path @ ''/Main.java'', class_name = ''Main'', is_kotlin = False\<rparr>
      else if str_contains ''fun main'' (take 200 script)
              \<or> str_contains ''kotlin'' (lower (take 200 script)) then
        \<lparr>source_file = tmp_path @ ''/Main.kt'', class_name = ''MainKt'', is_kotlin = True\<rparr>
      else
        \<lparr>source_file = tmp_path @ ''/Main.java'', class_name = ''Main'', is_kotlin = False\<rparr>)"

definition resource_limit_file :: "jvm_executor \<Rightarrow> string \<Rightarrow> bool \<Rightarrow> string option" where
  "resource_limit_file self tmp_path kotlin =
     (if \<not> kotlin \<and> (truthy (timeout self) \<or> truthy (memory_limit self))
      then Some (tmp_path @ ''/ResourceLimit.java'') else None)"

definition resource_limit_source :: "jvm_executor \<Rightarrow> executor_module \<Rightarrow> py_error + string" where
  "resource_limit_source self env =
     py_format RESOURCE_LIMIT_TEMPLATE
       [(''timeout'', str_int (or_zero (timeout self))),
        (''memory_limit'', str_int (or_zero (memory_limit self))),
        (''TIMEOUT_EXIT_CODE'', str_int (TIMEOUT_EXIT_CODE env))]"

text \<open>The successive \<^verbatim>\<open>f.write\<close> calls on the main source file, concatenated.\<close>

definition main_source :: "bool \<Rightarrow> string option \<Rightarrow> string \<Rightarrow> string" where
  "main_source kotlin resource_file script =
     (if \<not> kotlin then
        ''public class Main {\<newline>'' @
        ''    public static void main(String[] args) {\<newline>'' @
        (if resource_file \<noteq> None then ''        ResourceLimit.checkTimeout();\<newline>'' else []) @
        ''        try {\<newline>'' @
        script @
        ''        } catch (Exception e) {\<newline>'' @
        ''            e.printStackTrace();\<newline>'' @
        ''        }\<newline>'' @
        ''    }\<newline>'' @
        ''}\<newline>''
      else if \<not> str_contains ''fun main'' script then
        ''fun main() {\<newline>'' @ script @ ''}\<newline>''
      else script)"

text \<open>The command line as the f-string builds it, before \<^verbatim>\<open>.format\<close> and \<^verbatim>\<open>shlex.split\<close>.\<close>

definition compile_line :: "jvm_executor \<Rightarrow> string \<Rightarrow> dialect \<Rightarrow> string option \<Rightarrow> string" where
  "compile_line self tmp_path d resource_file =
     (if is_kotlin d then
        compiler_cl self @ '' '' @ source_file d @ '' -include-runtime -d '' @ (tmp_path @ ''/Main.jar'')
      else case resource_file of
        Some rf \<Rightarrow> compiler_cl self @ '' '' @ source_file d @ '' '' @ rf
      | None \<Rightarrow> compiler_cl self @ '' '' @ source_file d)"

definition compile_cmd :: "jvm_executor \<Rightarrow> string \<Rightarrow> dialect \<Rightarrow> string option \<Rightarrow> py_error + string list" where
  "compile_cmd self tmp_path d resource_file =
     (case py_format (compile_line self tmp_path d resource_file)
             [(''source'', shlex_quote (source_file d)), (''workdir'', shlex_quote tmp_path)] of
        Inl e \<Rightarrow> Inl e
      | Inr line \<Rightarrow> shlex_split line)"

definition run_line :: "jvm_executor \<Rightarrow> string \<Rightarrow> dialect \<Rightarrow> string" where
  "run_line self tmp_path d =
     (if is_kotlin d then run_cl self @ '' -jar '' @ replace (source_file d) ''.kt'' ''.jar''
      else run_cl self @ '' -cp '' @ tmp_path @ '' '' @ class_name d)"

definition run_cmd :: "jvm_executor \<Rightarrow> string \<Rightarrow> dialect \<Rightarrow> py_error + string list" where
  "run_cmd self tmp_path d =
     (case py_format (run_line self tmp_path d)
             [(''exe'', shlex_quote (if is_kotlin d then replace (source_file d) ''.kt'' ''.jar''
                                      else class_name d)),
              (''workdir'', shlex_quote tmp_path)] of
        Inl e \<Rightarrow> Inl e
      | Inr line \<Rightarrow> shlex_split line)"

subsection \<open>The generator\<close>

text \<open>
  A generator is the tree of its possible runs: it has yielded a command and waits for
  the value sent back (\<open>Yield\<close>), it has returned (\<open>Return\<close>, the caller sees
  StopIteration), or it has raised (\<open>Raise\<close>). \<open>setup_command\<close> gives the generator as it
  stands after the first \<^verbatim>\<open>next\<close>, together with the files written up to there; files
  are a map from path to content, and opening a file for writing replaces its content.
  The scratch directory is taken to exist and to be writable.
\<close>

datatype gen =
    Yield "string list" "process_execute_result \<Rightarrow> gen"
  | Return
  | Raise py_error

type_synonym files = "string \<rightharpoonup> string"

definition setup_command ::
  "jvm_executor \<Rightarrow> executor_module \<Rightarrow> string \<Rightarrow> string \<Rightarrow> files \<Rightarrow> files \<times> gen" where
  "setup_command self env tmp_path script fs =
     (let d = detect_dialect tmp_path script;
          resource_file = resource_limit_file self tmp_path (is_kotlin d);
          written = (case resource_file of
                       None \<Rightarrow> Inr fs
                     | Some rf \<Rightarrow> (case resource_limit_source self env of
                                    Inl e \<Rightarrow> Inl (fs(rf \<mapsto> []), e)
                                  | Inr text \<Rightarrow> Inr (fs(rf \<mapsto> text))))
      in case written of
           Inl (fs1, e) \<Rightarrow> (fs1, Raise e)
         | Inr fs1 \<Rightarrow>
             (fs1(source_file d \<mapsto> main_source (is_kotlin d) resource_file script),
              case compile_cmd self tmp_path d resource_file of
                Inl e \<Rightarrow> Raise e
              | Inr command \<Rightarrow>
                  Yield command (\<lambda>result.
                    if \<not> success env result then Raise (CompileError (stderr result))
                    else case run_cmd self tmp_path d of
                           Inl e \<Rightarrow> Raise e
                         | Inr command' \<Rightarrow> Yield command' (\<lambda>_. Return))))"

subsection \<open>\<open>execute_script\<close>\<close>

text \<open>
  Modelled from the spec: \<^verbatim>\<open>ScriptExecutor.execute_script\<close>, the base-class method that
  \<open>execute_script\<close> calls through \<^verbatim>\<open>super()\<close>; its module is not part of the sources. It
  requests the first stage and, while a stage is available, hands the stage's command to
  the process runner, feeds the result back to the generator and requests the next stage;
  the result of the last stage is returned as it is. An exception of the generator or of
  the runner propagates. The runner is a parameter: it gets the number of the stage and
  the command, and returns the captured result or fails with an exception of its own.
\<close>

primrec run_stages ::
  "gen \<Rightarrow> (nat \<Rightarrow> string list \<Rightarrow> py_error + process_execute_result) \<Rightarrow> nat
     \<Rightarrow> process_execute_result option \<Rightarrow> py_error + process_execute_result" where
  "run_stages (Yield command k) = (\<lambda>run n last.
     case run n command of
       Inl e \<Rightarrow> Inl e
     | Inr result \<Rightarrow> run_stages (k result) run (Suc n) (Some result))"
| "run_stages Return = (\<lambda>run n last.
     case last of None \<Rightarrow> Inl StopIteration | Some result \<Rightarrow> Inr result)"
| "run_stages (Raise e) = (\<lambda>run n last. Inl e)"

definition base_execute_script ::
  "gen \<Rightarrow> (nat \<Rightarrow> string list \<Rightarrow> py_error + process_execute_result)
     \<Rightarrow> py_error + process_execute_result" where
  "base_execute_script g run = run_stages g run 0 None"

text \<open>\<open>JvmExecutor.execute_script\<close>: the base method's result, with a \<open>CompileError\<close> turned
  into a result. The scratch directory and its files are the base method's.\<close>

definition execute_script ::
  "jvm_executor \<Rightarrow> executor_module \<Rightarrow> (nat \<Rightarrow> string list \<Rightarrow> py_error + process_execute_result)
     \<Rightarrow> string \<Rightarrow> files \<Rightarrow> string \<Rightarrow> py_error + process_execute_result" where
  "execute_script self env run tmp_path fs script =
     (case base_execute_script (snd (setup_command self env tmp_path script fs)) run of
        Inl (CompileError msg) \<Rightarrow>
          Inr \<lparr>stdout = [], stderr = msg, exit_code = COMPILE_ERROR_EXIT_CODE env, cost = 0\<rparr>
      | Inl e \<Rightarrow> Inl e
      | Inr result \<Rightarrow> Inr result)"

section \<open>Auxiliary notions\<close>

text \<open>
  A format string read as a list of pieces: literal text, the two escaped braces, and
  replacement fields with a plain name. \<open>unparse\<close> writes a piece as it stands in the
  format string, \<open>render\<close> as it stands in the result. \<open>template_pieces\<close> is the guard
  template read this way.
\<close>

datatype piece = Text string | LBrace | RBrace | Hole string

fun unparse :: "piece \<Rightarrow> string" where
  "unparse (Text s) = s"
| "unparse LBrace = ''{{''"
| "unparse RBrace = ''}}''"
| "unparse (Hole n) = ''{'' @ n @ ''}''"

fun render :: "(string \<times> string) list \<Rightarrow> piece \<Rightarrow> string" where
  "render kw (Text s) = s"
| "render kw LBrace = ''{''"
| "render kw RBrace = ''}''"
| "render kw (Hole n) = (case map_of kw n of Some v \<Rightarrow> v | None \<Rightarrow> [])"

definition no_braces :: "string \<Rightarrow> bool" where
  "no_braces s = list_all (\<lambda>c. c \<noteq> CHR ''{'' \<and> c \<noteq> CHR ''}'') s"

fun piece_ok :: "(string \<times> string) list \<Rightarrow> piece \<Rightarrow> bool" where
  "piece_ok kw (Text s) = no_braces s"
| "piece_ok kw LBrace = True"
| "piece_ok kw RBrace = True"
| "piece_ok kw (Hole n) =
     (\<not> list_all is_digit n \<and> list_all (\<lambda>c. c \<notin> set ''{}.[:!'') n \<and> map_of kw n \<noteq> None)"

definition template_pieces :: "piece list" where
  \<open>template_pieces =
    [Text ''import java.lang.management.ManagementFactory;\<newline>'',
     Text ''import java.lang.management.MemoryMXBean;\<newline>'',
     Text ''import java.util.concurrent.TimeUnit;\<newline>'',
     Text ''\<newline>'',
     Text ''public class ResourceLimit '',
     LBrace,
     Text ''\<newline>'',
     Text ''    private static final long startTime = System.nanoTime();\<newline>'',
     Text ''    private static final long timeoutNanos = '',
     Hole ''timeout'',
     Text '' * 1_000_000L; // Convert to nanoseconds\<newline>'',
     Text ''    private static final long memoryLimitBytes = '',
     Hole ''memory_limit'',
     Text '';\<newline>'',
     Text ''\<newline>'',
     Text ''    static '',
     LBrace,
     Text ''\<newline>'',
     Text ''        // Set up timeout handler\<newline>'',
     Text ''        Thread timeoutThread = new Thread(() -> '',
     LBrace,
     Text ''\<newline>'',
     Text ''            try '',
     LBrace,
     Text ''\<newline>'',
     Text ''                Thread.sleep('',
     Hole ''timeout'',
     Text '');\<newline>'',
     Text ''                System.err.println("Suicide from timeout.");\<newline>'',
     Text ''                System.exit('',
     Hole ''TIMEOUT_EXIT_CODE'',
     Text '');\<newline>'',
     Text ''            '',
     RBrace,
     Text '' catch (InterruptedException e) '',
     LBrace,
     Text ''\<newline>'',
     Text ''                // Normal exit\<newline>'',
     Text ''            '',
     RBrace,
     Text ''\<newline>'',
     Text ''        '',
     RBrace,
     Text '');\<newline>'',
     Text ''        timeoutThread.setDaemon(true);\<newline>'',
     Text ''        timeoutThread.start();\<newline>'',
     Text ''\<newline>'',
     Text ''        // Memory monitoring (optional - JVM handles this)\<newline>'',
     Text ''        if (memoryLimitBytes > 0) '',
     LBrace,
     Text ''\<newline>'',
     Text ''            Thread memoryThread = new Thread(() -> '',
     LBrace,
     Text ''\<newline>'',
     Text ''                while (true) '',
     LBrace,
     Text ''\<newline>'',
     Text ''                    try '',
     LBrace,
     Text ''\<newline>'',
     Text ''                        MemoryMXBean memoryBean = ManagementFactory.getMemoryMXBean();\<newline>'',
     Text ''                        long usedMemory = memoryBean.getHeapMemoryUsage().getUsed();\<newline>'',
     Text ''                        if (usedMemory > memoryLimitBytes) '',
     LBrace,
     Text ''\<newline>'',
     Text ''                            System.err.println("Memory limit exceeded.");\<newline>'',
     Text ''                            System.exit('',
     Hole ''TIMEOUT_EXIT_CODE'',
     Text '');\<newline>'',
     Text ''                        '',
     RBrace,
     Text ''\<newline>'',
     Text ''                        Thread.sleep(100); // Check every 100ms\<newline>'',
     Text ''                    '',
     RBrace,
     Text '' catch (Exception e) '',
     LBrace,
     Text ''\<newline>'',
     Text ''                        break;\<newline>'',
     Text ''                    '',
     RBrace,
     Text ''\<newline>'',
     Text ''                '',
     RBrace,
     Text ''\<newline>'',
     Text ''            '',
     RBrace,
     Text '');\<newline>'',
     Text ''            memoryThread.setDaemon(true);\<newline>'',
     Text ''            memoryThread.start();\<newline>'',
     Text ''        '',
     RBrace,
     Text ''\<newline>'',
     Text ''    '',
     RBrace,
     Text ''\<newline>'',
     Text ''\<newline>'',
     Text ''    public static void checkTimeout() '',
     LBrace,
     Text ''\<newline>'',
     Text ''        long currentTime = System.nanoTime();\<newline>'',
     Text ''        if (currentTime - startTime > timeoutNanos) '',
     LBrace,
     Text ''\<newline>'',
     Text ''            System.err.println("Suicide from timeout.");\<newline>'',
     Text ''            System.exit('',
     Hole ''TIMEOUT_EXIT_CODE'',
     Text '');\<newline>'',
     Text ''        '',
     RBrace,
     Text ''\<newline>'',
     Text ''    '',
     RBrace,
     Text ''\<newline>'',
     RBrace]\<close>

text \<open>The two commands of a request, as \<open>setup_command\<close> builds them.\<close>

definition compile_stage :: "jvm_executor \<Rightarrow> string \<Rightarrow> string \<Rightarrow> py_error + string list" where
  "compile_stage self tmp_path script =
     compile_cmd self tmp_path (detect_dialect tmp_path script)
       (resource_limit_file self tmp_path (is_kotlin (detect_dialect tmp_path script)))"

definition run_stage :: "jvm_executor \<Rightarrow> string \<Rightarrow> string \<Rightarrow> py_error + string list" where
  "run_stage self tmp_path script = run_cmd self tmp_path (detect_dialect tmp_path script)"

text \<open>The commands a generator yields when the results \<open>rs\<close> are sent to it in turn.\<close>

primrec emitted :: "gen \<Rightarrow> process_execute_result list \<Rightarrow> string list list" where
  "emitted (Yield command k) = (\<lambda>rs. command # (case rs of [] \<Rightarrow> [] | r # rs' \<Rightarrow> emitted (k r) rs'))"
| "emitted Return = (\<lambda>rs. [])"
| "emitted (Raise e) = (\<lambda>rs. [])"

text \<open>Whether guard code is injected for a request.\<close>

definition guarded :: "jvm_executor \<Rightarrow> string \<Rightarrow> string \<Rightarrow> bool" where
  "guarded self tmp_path script =
     (\<not> is_kotlin (detect_dialect tmp_path script)
      \<and> (truthy (timeout self) \<or> truthy (memory_limit self)))"

text \<open>An executor, its module constants and a process runner to try the statements on.\<close>

definition javac_executor :: jvm_executor where
  "javac_executor =
     \<lparr>compiler_cl = ''javac'', run_cl = ''java'', timeout = Some 1000, memory_limit = None\<rparr>"

definition exit_zero_module :: executor_module where
  "exit_zero_module =
     \<lparr>COMPILE_ERROR_EXIT_CODE = 255, TIMEOUT_EXIT_CODE = 124,
      success = (\<lambda>r. exit_code r = 0)\<rparr>"

definition failed_result :: process_execute_result where
  "failed_result = \<lparr>stdout = ''out'', stderr = ''Main.java:3: error'', exit_code = 1, cost = 2\<rparr>"

definition passed_result :: process_execute_result where
  "passed_result = \<lparr>stdout = [], stderr = [], exit_code = 0, cost = 3\<rparr>"

text \<open>
  Text without quotes and backslashes, for which \<open>shlex_split\<close> is splitting at
  whitespace (\<open>split_ws\<close>, with the token read so far); a path is clean when it also has
  no whitespace and no braces.
\<close>

definition plain_char :: "char \<Rightarrow> bool" where
  "plain_char c = (\<not> shlex_quotes c \<and> c \<noteq> backslash)"

definition plain_text :: "string \<Rightarrow> bool" where
  "plain_text s = list_all plain_char s"

definition clean_path :: "string \<Rightarrow> bool" where
  "clean_path s = (plain_text s \<and> no_braces s \<and> list_all (\<lambda>c. \<not> shlex_whitespace c) s)"

fun split_ws :: "string \<Rightarrow> string \<Rightarrow> string list" where
  "split_ws tok [] = (if tok = [] then [] else [tok])"
| "split_ws tok (c # cs) =
     (if shlex_whitespace c then (if tok = [] then split_ws [] cs else tok # split_ws [] cs)
      else split_ws (tok @ [c]) cs)"

definition format_executor :: jvm_executor where
  "format_executor =
     \<lparr>compiler_cl = ''javac {source}'', run_cl = ''java'', timeout = None, memory_limit = None\<rparr>"

text \<open>
  The arguments of the calls of \<open>f\<close> in a text: for each place where \<open>f\<close> (a name with its
  opening parenthesis) occurs, the characters up to the next closing parenthesis. A
  string is numeric when it consists of digits and the minus sign, as \<open>str_int\<close> gives.
\<close>

fun call_args :: "string \<Rightarrow> string \<Rightarrow> string list" where
  "call_args f [] = []"
| "call_args f (c # cs) =
     (if prefix f (c # cs)
      then takeWhile (\<lambda>x. x \<noteq> CHR '')'') (drop (length f) (c # cs)) # call_args f cs
      else call_args f cs)"

definition numeric :: "string \<Rightarrow> bool" where
  "numeric s = list_all (\<lambda>x. x \<in> set ''-0123456789'') s"

definition memory_executor :: jvm_executor where
  "memory_executor =
     \<lparr>compiler_cl = ''javac'', run_cl = ''java'', timeout = None, memory_limit = Some 1048576\<rparr>"


section \<open>Facts about the library functions\<close>

subsection \<open>\<open>strip\<close>\<close>

lemma rstrip_all_space: "list_all py_isspace r \<Longrightarrow> rstrip r = []"
  by (induction r) simp_all

lemma rstrip_append_space: "list_all py_isspace r \<Longrightarrow> rstrip (b @ r) = rstrip b"
  by (induction b) (simp_all add: rstrip_all_space)

lemma rstrip_last: "b \<noteq> [] \<Longrightarrow> \<not> py_isspace (last b) \<Longrightarrow> rstrip b = b"
proof (induction b)
  case Nil
  then show ?case by simp
next
  case (Cons a b)
  show ?case
  proof (cases "b = []")
    case True
    with Cons.prems show ?thesis by simp
  next
    case False
    with Cons have "rstrip b = b" by simp
    with False show ?thesis by (cases b) simp_all
  qed
qed

lemma dropWhile_space_append:
  "list_all py_isspace l \<Longrightarrow> b \<noteq> [] \<Longrightarrow> \<not> py_isspace (hd b) \<Longrightarrow>
   dropWhile py_isspace (l @ b) = b"
  by (induction l) (auto simp: neq_Nil_conv)

lemma strip_between:
  assumes "list_all py_isspace l" "list_all py_isspace r"
    and "b \<noteq> []" "\<not> py_isspace (hd b)" "\<not> py_isspace (last b)"
  shows "strip (l @ b @ r) = b"
proof -
  have "dropWhile py_isspace (l @ b @ r) = b @ r"
    using assms(1,3,4) dropWhile_space_append [of l "b @ r"] by simp
  then show ?thesis
    using assms(2,3,5) by (simp add: strip_def rstrip_append_space rstrip_last)
qed

subsection \<open>\<open>str.format\<close>, piece by piece\<close>

lemma cons_ok_append_ok: "cons_ok c (append_ok s r) = append_ok (c # s) r"
  by (cases r) simp_all

lemma append_ok_Nil: "append_ok [] r = r"
  by (cases r) simp_all

lemma append_ok_append: "append_ok s (append_ok s' r) = append_ok (s @ s') r"
  by (cases r) simp_all

lemma format_text:
  "no_braces s \<Longrightarrow> format_from kw InText (s @ rest) = append_ok s (format_from kw InText rest)"
  by (induction s) (simp_all add: no_braces_def append_ok_Nil cons_ok_append_ok)

lemma format_field_name:
  "list_all (\<lambda>c. c \<notin> set ''{}.[:!'') n \<Longrightarrow>
   format_from kw (InField acc) (n @ CHR ''}'' # rest) =
     (case lookup_field kw (acc @ n) of
        Inl e \<Rightarrow> Inl e
      | Inr v \<Rightarrow> append_ok v (format_from kw InText rest))"
  by (induction n arbitrary: acc) simp_all

lemma format_hole:
  assumes "piece_ok kw (Hole n)"
  shows "format_from kw InText (unparse (Hole n) @ rest) =
           append_ok (render kw (Hole n)) (format_from kw InText rest)"
proof -
  from assms obtain c cs where n: "n = c # cs"
    by (cases n) simp_all
  from assms n have c: "c \<noteq> CHR ''{''"
    by simp
  from assms obtain v where v: "map_of kw n = Some v"
    by auto
  from assms v have look: "lookup_field kw n = Inr v"
    by (simp add: lookup_field_def)
  have "format_from kw InText (unparse (Hole n) @ rest) = format_from kw (InField []) (n @ CHR ''}'' # rest)"
    using c by (simp add: n)
  also have "\<dots> = append_ok v (format_from kw InText rest)"
    using assms look by (simp add: format_field_name)
  finally show ?thesis
    by (simp add: v)
qed

lemma format_piece:
  "piece_ok kw p \<Longrightarrow>
   format_from kw InText (unparse p @ rest) = append_ok (render kw p) (format_from kw InText rest)"
proof (cases p)
  case (Text s)
  then show "piece_ok kw p \<Longrightarrow> ?thesis" by (simp add: format_text)
next
  case LBrace
  then show ?thesis by (cases "format_from kw InText rest") simp_all
next
  case RBrace
  then show ?thesis by (cases "format_from kw InText rest") simp_all
next
  case (Hole n)
  then show "piece_ok kw p \<Longrightarrow> ?thesis" using format_hole by blast
qed

lemma format_pieces:
  "list_all (piece_ok kw) ps \<Longrightarrow>
   format_from kw InText (concat (map unparse ps)) = Inr (concat (map (render kw) ps))"
  by (induction ps) (simp_all add: format_piece)

lemma format_no_braces: "no_braces s \<Longrightarrow> py_format s kw = Inr s"
  using format_pieces [of kw "[Text s]"] by (simp add: py_format_def)

subsection \<open>The guard template and its rendering\<close>

lemma last_concat_unparse:
  "ps \<noteq> [] \<Longrightarrow> last ps = RBrace \<Longrightarrow>
   concat (map unparse ps) \<noteq> [] \<and> last (concat (map unparse ps)) = CHR ''}''"
proof (induction ps)
  case Nil
  then show ?case by simp
next
  case (Cons p ps)
  show ?case
  proof (cases "ps = []")
    case True
    with Cons.prems show ?thesis by simp
  next
    case False
    with Cons have "concat (map unparse ps) \<noteq> [] \<and> last (concat (map unparse ps)) = CHR ''}''"
      by simp
    then show ?thesis by simp
  qed
qed

lemma last_template_pieces: "last template_pieces = RBrace"
  unfolding template_pieces_def
  by (simp only: last.simps list.distinct if_False if_True refl)

lemma literal_pieces:
  "RESOURCE_LIMIT_LITERAL = ''\<newline>'' @ concat (map unparse template_pieces) @ ''\<newline>''"
  unfolding RESOURCE_LIMIT_LITERAL_def template_pieces_def
  by simp

lemma template_pieces_ok:
  "list_all (piece_ok [(''timeout'', t), (''memory_limit'', m), (''TIMEOUT_EXIT_CODE'', c)])
     template_pieces"
  unfolding template_pieces_def
  by (simp add: no_braces_def is_digit_def)

lemma render_template_pieces:
  "concat (map (render [(''timeout'', t), (''memory_limit'', m), (''TIMEOUT_EXIT_CODE'', c)])
     template_pieces) = resource_limit_java t m c"
  unfolding template_pieces_def resource_limit_java_def
  by simp

lemma hd_template_pieces: "hd (concat (map unparse template_pieces)) = CHR ''i''"
  unfolding template_pieces_def by simp

lemma template_is_pieces: "RESOURCE_LIMIT_TEMPLATE = concat (map unparse template_pieces)"
proof -
  have ne: "template_pieces \<noteq> []"
    by (simp add: template_pieces_def)
  have ends: "concat (map unparse template_pieces) \<noteq> []"
    "last (concat (map unparse template_pieces)) = CHR ''}''"
    using last_concat_unparse [OF ne last_template_pieces] by simp_all
  have sp: "list_all py_isspace ''\<newline>''"
    by (simp add: py_isspace_def)
  have h: "\<not> py_isspace (hd (concat (map unparse template_pieces)))"
    by (simp only: hd_template_pieces) (simp add: py_isspace_def)
  have l: "\<not> py_isspace (last (concat (map unparse template_pieces)))"
    by (simp only: ends(2)) (simp add: py_isspace_def)
  show ?thesis
    unfolding RESOURCE_LIMIT_TEMPLATE_def literal_pieces
    by (rule strip_between [OF sp sp ends(1) h l])
qed

lemma format_template:
  "py_format RESOURCE_LIMIT_TEMPLATE
     [(''timeout'', t), (''memory_limit'', m), (''TIMEOUT_EXIT_CODE'', c)]
   = Inr (resource_limit_java t m c)"
  unfolding py_format_def template_is_pieces
  by (simp only: format_pieces [OF template_pieces_ok] render_template_pieces)

section \<open>The generator of \<open>setup_command\<close>\<close>

lemma resource_limit_source_ok:
  "resource_limit_source self env =
     Inr (resource_limit_java (str_int (or_zero (timeout self)))
            (str_int (or_zero (memory_limit self))) (str_int (TIMEOUT_EXIT_CODE env)))"
  by (simp only: resource_limit_source_def format_template)

lemma setup_command_gen:
  "snd (setup_command self env tmp_path script fs) =
     (case compile_stage self tmp_path script of
        Inl e \<Rightarrow> Raise e
      | Inr command \<Rightarrow>
          Yield command (\<lambda>result.
            if \<not> success env result then Raise (CompileError (stderr result))
            else case run_stage self tmp_path script of
                   Inl e \<Rightarrow> Raise e
                 | Inr command' \<Rightarrow> Yield command' (\<lambda>_. Return)))"
  by (simp add: setup_command_def Let_def resource_limit_source_ok compile_stage_def
      run_stage_def split: option.splits sum.splits)

lemma setup_command_files:
  "fst (setup_command self env tmp_path script fs) =
     (let d = detect_dialect tmp_path script;
          text = resource_limit_java (str_int (or_zero (timeout self)))
            (str_int (or_zero (memory_limit self))) (str_int (TIMEOUT_EXIT_CODE env));
          fs1 = (if guarded self tmp_path script
                 then fs(tmp_path @ ''/ResourceLimit.java'' \<mapsto> text) else fs)
      in fs1(source_file d \<mapsto>
           main_source (is_kotlin d) (resource_limit_file self tmp_path (is_kotlin d)) script))"
  by (simp add: setup_command_def Let_def resource_limit_source_ok guarded_def
      resource_limit_file_def split: option.splits sum.splits)

lemma run_stages_setup:
  assumes "compile_stage self tmp_path script = Inr command"
    and "run 0 command = Inr result"
  shows "base_execute_script (snd (setup_command self env tmp_path script fs)) run =
     (if \<not> success env result then Inl (CompileError (stderr result))
      else case run_stage self tmp_path script of
             Inl e \<Rightarrow> Inl e
           | Inr command' \<Rightarrow> (case run 1 command' of Inl e \<Rightarrow> Inl e | Inr result' \<Rightarrow> Inr result'))"
  using assms
  by (simp add: base_execute_script_def setup_command_gen split: sum.splits)

text \<open>
  C1. When the compile stage's result is unsuccessful, the generator raises
  \<open>CompileError\<close> with that result's stderr and yields no further command, and
  \<open>execute_script\<close> returns the result with the compile-error exit code, the compiler's
  stderr, an empty stdout and cost 0.
\<close>

theorem compile_failure_result:
  assumes "compile_stage self tmp_path script = Inr command"
    and "run 0 command = Inr result"
    and "\<not> success env result"
  shows "(\<exists>k. snd (setup_command self env tmp_path script fs) = Yield command k
            \<and> k result = Raise (CompileError (stderr result))
            \<and> emitted (Yield command k) (result # rs) = [command])
       \<and> execute_script self env run tmp_path fs script =
           Inr \<lparr>stdout = [], stderr = stderr result,
                exit_code = COMPILE_ERROR_EXIT_CODE env, cost = 0\<rparr>"
proof
  show "\<exists>k. snd (setup_command self env tmp_path script fs) = Yield command k
            \<and> k result = Raise (CompileError (stderr result))
            \<and> emitted (Yield command k) (result # rs) = [command]"
    using assms(1,3) by (simp add: setup_command_gen)
  show "execute_script self env run tmp_path fs script =
           Inr \<lparr>stdout = [], stderr = stderr result,
                exit_code = COMPILE_ERROR_EXIT_CODE env, cost = 0\<rparr>"
    using assms(3)
    by (simp add: execute_script_def run_stages_setup [where run = run, OF assms(1,2)])
qed

theorem compile_failure_result_witness:
  "compile_stage javac_executor ''/tmp/x'' ''System.out.println(42);''
     = Inr [''javac'', ''/tmp/x/Main.java'', ''/tmp/x/ResourceLimit.java'']
   \<and> \<not> success exit_zero_module failed_result
   \<and> execute_script javac_executor exit_zero_module (\<lambda>n command. Inr failed_result)
         ''/tmp/x'' Map.empty ''System.out.println(42);''
       = Inr \<lparr>stdout = [], stderr = ''Main.java:3: error'', exit_code = 255, cost = 0\<rparr>"
proof -
  have c: "compile_stage javac_executor ''/tmp/x'' ''System.out.println(42);''
     = Inr [''javac'', ''/tmp/x/Main.java'', ''/tmp/x/ResourceLimit.java'']"
    by code_simp
  have f: "\<not> success exit_zero_module failed_result"
    by (simp add: exit_zero_module_def failed_result_def)
  from compile_failure_result [where run = "\<lambda>n command. Inr failed_result"
      and fs = Map.empty and rs = "[]", OF c _ f] c f
  show ?thesis
    by (simp add: exit_zero_module_def failed_result_def)
qed




text \<open>
  C3. A CompileError apart, \<open>execute_script\<close> returns what the base method returns. With
  a successful compile stage that is the run stage's result as the runner captured it,
  whatever its exit code: a failing guest program is not an error of the executor.
\<close>

theorem run_result_passed_through:
  assumes "compile_stage self tmp_path script = Inr compile_command"
    and "run 0 compile_command = Inr compiled"
    and "success env compiled"
    and "run_stage self tmp_path script = Inr run_command"
    and "run 1 run_command = Inr result"
  shows "execute_script self env run tmp_path fs script = Inr result
       \<and> (\<forall>r. base_execute_script (snd (setup_command self env tmp_path script fs)) run = Inr r
              \<longrightarrow> execute_script self env run tmp_path fs script = Inr r)"
  using assms(3,4,5)
  by (simp add: execute_script_def run_stages_setup [where run = run, OF assms(1,2)])

theorem run_result_passed_through_witness:
  "compile_stage javac_executor ''/tmp/x'' ''System.out.println(42);''
     = Inr [''javac'', ''/tmp/x/Main.java'', ''/tmp/x/ResourceLimit.java'']
   \<and> run_stage javac_executor ''/tmp/x'' ''System.out.println(42);''
     = Inr [''java'', ''-cp'', ''/tmp/x'', ''Main'']
   \<and> success exit_zero_module passed_result
   \<and> exit_code failed_result = 1
   \<and> execute_script javac_executor exit_zero_module
         (\<lambda>n command. if n = 0 then Inr passed_result else Inr failed_result)
         ''/tmp/x'' Map.empty ''System.out.println(42);''
       = Inr failed_result"
proof -
  have c: "compile_stage javac_executor ''/tmp/x'' ''System.out.println(42);''
     = Inr [''javac'', ''/tmp/x/Main.java'', ''/tmp/x/ResourceLimit.java'']"
    by code_simp
  have r: "run_stage javac_executor ''/tmp/x'' ''System.out.println(42);''
     = Inr [''java'', ''-cp'', ''/tmp/x'', ''Main'']"
    by code_simp
  have s: "success exit_zero_module passed_result"
    by (simp add: exit_zero_module_def passed_result_def)
  from run_result_passed_through
      [where run = "\<lambda>n command. if n = 0 then Inr passed_result else Inr failed_result"
        and fs = Map.empty, OF c _ s r] c r s
  show ?thesis
    by (simp add: failed_result_def)
qed

section \<open>The files written and determinism\<close>

lemma java_source_file:
  "\<not> is_kotlin (detect_dialect tmp_path script) \<Longrightarrow>
   source_file (detect_dialect tmp_path script) = tmp_path @ ''/Main.java''"
  by (simp add: detect_dialect_def split: if_splits)

lemma kotlin_source_file:
  "is_kotlin (detect_dialect tmp_path script) \<Longrightarrow>
   source_file (detect_dialect tmp_path script) = tmp_path @ ''/Main.kt''"
  by (simp add: detect_dialect_def split: if_splits)

text \<open>
  C7. For the class-wrapper dialect the file written as \<open>Main.java\<close> is the class header,
  the header of \<open>main\<close>, the call \<open>ResourceLimit.checkTimeout();\<close> when guard code is
  injected, and then the script between \<open>try {\<close> and \<open>} catch (Exception e)\<close> with a handler
  that prints the stack trace: the check stands before the guest's text, which is inside
  the try block of the generated \<open>main\<close>.
\<close>

theorem java_source_wrapper:
  assumes "\<not> is_kotlin (detect_dialect tmp_path script)"
  shows "fst (setup_command self env tmp_path script fs) (tmp_path @ ''/Main.java'') =
     Some (''public class Main {\<newline>'' @
           ''    public static void main(String[] args) {\<newline>'' @
           (if truthy (timeout self) \<or> truthy (memory_limit self)
            then ''        ResourceLimit.checkTimeout();\<newline>'' else []) @
           ''        try {\<newline>'' @
           script @
           ''        } catch (Exception e) {\<newline>'' @
           ''            e.printStackTrace();\<newline>'' @
           ''        }\<newline>'' @
           ''    }\<newline>'' @
           ''}\<newline>'')"
  using assms
  by (simp add: setup_command_files java_source_file Let_def main_source_def
      resource_limit_file_def)

theorem java_source_wrapper_witness:
  "\<not> is_kotlin (detect_dialect ''/tmp/x'' ''System.out.println(42);'')
   \<and> fst (setup_command javac_executor exit_zero_module ''/tmp/x''
          ''System.out.println(42);'' Map.empty) ''/tmp/x/Main.java'' =
     Some (''public class Main {\<newline>'' @
           ''    public static void main(String[] args) {\<newline>'' @
           ''        ResourceLimit.checkTimeout();\<newline>'' @
           ''        try {\<newline>'' @
           ''System.out.println(42);'' @
           ''        } catch (Exception e) {\<newline>'' @
           ''            e.printStackTrace();\<newline>'' @
           ''        }\<newline>'' @
           ''    }\<newline>'' @
           ''}\<newline>'')"
proof -
  have j: "\<not> is_kotlin (detect_dialect ''/tmp/x'' ''System.out.println(42);'')"
    by code_simp
  from java_source_wrapper [OF j, of javac_executor exit_zero_module Map.empty] j
  show ?thesis
    by (simp add: javac_executor_def truthy_def)
qed

text \<open>
  C8. Two invocations with the same script, scratch directory and executor select the
  same dialect and produce the same generator, whatever files were there before; they
  write the same main source file, and they yield the same commands when the results
  sent to them agree on success.
\<close>

theorem setup_command_deterministic:
  assumes "success env r = success env r'"
  shows "snd (setup_command self env tmp_path script fs)
           = snd (setup_command self env tmp_path script fs')
       \<and> fst (setup_command self env tmp_path script fs)
             (source_file (detect_dialect tmp_path script))
           = fst (setup_command self env tmp_path script fs')
             (source_file (detect_dialect tmp_path script))
       \<and> emitted (snd (setup_command self env tmp_path script fs)) [r, q]
           = emitted (snd (setup_command self env tmp_path script fs')) [r', q']"
  using assms
  by (simp add: setup_command_gen setup_command_files Let_def split: sum.splits)

theorem setup_command_deterministic_witness:
  "success exit_zero_module passed_result = success exit_zero_module (passed_result\<lparr>stdout := ''42''\<rparr>)
   \<and> snd (setup_command javac_executor exit_zero_module ''/tmp/x'' ''System.out.println(42);''
          Map.empty)
     = snd (setup_command javac_executor exit_zero_module ''/tmp/x'' ''System.out.println(42);''
          [''/tmp/x/Main.java'' \<mapsto> ''old''])
   \<and> emitted (snd (setup_command javac_executor exit_zero_module ''/tmp/x''
          ''System.out.println(42);'' Map.empty)) [passed_result, failed_result]
     = emitted (snd (setup_command javac_executor exit_zero_module ''/tmp/x''
          ''System.out.println(42);'' [''/tmp/x/Main.java'' \<mapsto> ''old'']))
         [passed_result\<lparr>stdout := ''42''\<rparr>, passed_result]"
proof -
  have s: "success exit_zero_module passed_result
      = success exit_zero_module (passed_result\<lparr>stdout := ''42''\<rparr>)"
    by (simp add: exit_zero_module_def passed_result_def)
  from setup_command_deterministic [OF s, where self = javac_executor
      and tmp_path = "''/tmp/x''" and script = "''System.out.println(42);''"
      and fs = Map.empty and fs' = "[''/tmp/x/Main.java'' \<mapsto> ''old'']"
      and q = failed_result and q' = passed_result] s
  show ?thesis by blast
qed

section \<open>Command lines without quotes and braces\<close>

lemma read_tokens_plain:
  "plain_text s \<Longrightarrow>
   read_tokens Blank [] False s = Inr (split_ws [] s)
   \<and> (tok \<noteq> [] \<longrightarrow> read_tokens Word tok False s = Inr (split_ws tok s))"
proof (induction s arbitrary: tok)
  case Nil
  then show ?case by simp
next
  case (Cons c cs)
  then have c: "\<not> shlex_quotes c" "c \<noteq> backslash" and cs: "plain_text cs"
    by (simp_all add: plain_text_def plain_char_def)
  have blank: "read_tokens Blank [] False cs = Inr (split_ws [] cs)"
    using Cons.IH [OF cs] by simp
  have word: "read_tokens Word t False cs = Inr (split_ws t cs)" if "t \<noteq> []" for t
    using Cons.IH [OF cs, of t] that by simp
  show ?case
    using c blank word [of "[c]"] word [of "tok @ [c]"] by simp
qed

lemma shlex_split_plain: "plain_text s \<Longrightarrow> shlex_split s = Inr (split_ws [] s)"
  by (simp add: shlex_split_def read_tokens_plain)

lemma split_ws_append:
  "shlex_whitespace c \<Longrightarrow> split_ws tok (a @ c # b) = split_ws tok a @ split_ws [] b"
  by (induction a arbitrary: tok) simp_all

lemma split_ws_word:
  "list_all (\<lambda>c. \<not> shlex_whitespace c) b \<Longrightarrow>
   split_ws tok b = (if tok @ b = [] then [] else [tok @ b])"
  by (induction b arbitrary: tok) simp_all

lemma split_ws_tokens:
  "t \<in> set (split_ws tok s) \<Longrightarrow> list_all (\<lambda>c. \<not> shlex_whitespace c) tok \<Longrightarrow>
   list_all (\<lambda>c. \<not> shlex_whitespace c) t"
  by (induction s arbitrary: tok) (auto split: if_splits)

lemma space_is_whitespace: "shlex_whitespace CHR '' ''"
  by (simp add: shlex_whitespace_def)

lemma plain_text_append: "plain_text (a @ b) = (plain_text a \<and> plain_text b)"
  by (simp add: plain_text_def)

lemma no_braces_append: "no_braces (a @ b) = (no_braces a \<and> no_braces b)"
  by (simp add: no_braces_def)

lemma no_braces_Cons:
  "no_braces (c # s) = (c \<noteq> CHR ''{'' \<and> c \<noteq> CHR ''}'' \<and> no_braces s)" "no_braces []"
  by (simp_all add: no_braces_def)

lemma no_braces_replace_from:
  "no_braces s \<Longrightarrow> no_braces new \<Longrightarrow> no_braces (replace_from old new k s)"
  by (induction old new k s rule: replace_from.induct) (simp_all add: no_braces_def)

lemma no_braces_compile_line:
  "no_braces (compiler_cl self) \<Longrightarrow> no_braces tmp_path \<Longrightarrow>
   no_braces (compile_line self tmp_path (detect_dialect tmp_path script)
     (resource_limit_file self tmp_path (is_kotlin (detect_dialect tmp_path script))))"
  by (simp add: compile_line_def detect_dialect_def resource_limit_file_def no_braces_def)

lemma no_braces_run_line:
  assumes "no_braces (run_cl self)" "no_braces tmp_path"
  shows "no_braces (run_line self tmp_path (detect_dialect tmp_path script))"
proof -
  have "no_braces (replace (tmp_path @ ''/Main.kt'') ''.kt'' ''.jar'')"
    unfolding replace_def
    by (rule no_braces_replace_from) (simp_all add: no_braces_append no_braces_Cons assms)
  then show ?thesis
    using assms
    by (simp add: run_line_def detect_dialect_def no_braces_append no_braces_Cons)
qed

lemma compile_stage_no_braces:
  "no_braces (compiler_cl self) \<Longrightarrow> no_braces tmp_path \<Longrightarrow>
   compile_stage self tmp_path script =
     shlex_split (compile_line self tmp_path (detect_dialect tmp_path script)
       (resource_limit_file self tmp_path (is_kotlin (detect_dialect tmp_path script))))"
  by (simp add: compile_stage_def compile_cmd_def format_no_braces no_braces_compile_line)

lemma run_stage_no_braces:
  "no_braces (run_cl self) \<Longrightarrow> no_braces tmp_path \<Longrightarrow>
   run_stage self tmp_path script =
     shlex_split (run_line self tmp_path (detect_dialect tmp_path script))"
  by (simp add: run_stage_def run_cmd_def format_no_braces no_braces_run_line)

section \<open>Guard injection\<close>

lemma split_ws_first:
  "w \<noteq> [] \<Longrightarrow> list_all (\<lambda>c. \<not> shlex_whitespace c) w \<Longrightarrow>
   list_all (\<lambda>w. w \<noteq> [] \<and> list_all (\<lambda>c. \<not> shlex_whitespace c) w) ws \<Longrightarrow>
   split_ws [] (w @ concat (map ((#) CHR '' '') ws)) = w # ws"
proof (induction ws arbitrary: w)
  case Nil
  then show ?case by (simp add: split_ws_word)
next
  case (Cons v ws)
  have "split_ws [] (w @ CHR '' '' # v @ concat (map ((#) CHR '' '') ws))
      = split_ws [] w @ split_ws [] (v @ concat (map ((#) CHR '' '') ws))"
    by (rule split_ws_append [OF space_is_whitespace])
  with Cons show ?case by (simp add: split_ws_word)
qed

lemma split_ws_command:
  assumes "list_all (\<lambda>w. w \<noteq> [] \<and> list_all (\<lambda>c. \<not> shlex_whitespace c) w) ws"
  shows "split_ws [] (cl @ concat (map ((#) CHR '' '') ws)) = split_ws [] cl @ ws"
proof (cases ws)
  case Nil
  then show ?thesis by simp
next
  case (Cons w ws')
  have "split_ws [] (cl @ CHR '' '' # w @ concat (map ((#) CHR '' '') ws'))
      = split_ws [] cl @ split_ws [] (w @ concat (map ((#) CHR '' '') ws'))"
    by (rule split_ws_append [OF space_is_whitespace])
  with assms Cons show ?thesis by (simp add: split_ws_first)
qed

lemma plain_text_Cons:
  "plain_text (c # s) = (c \<noteq> squote \<and> c \<noteq> dquote \<and> c \<noteq> backslash \<and> plain_text s)"
  "plain_text []"
  by (auto simp: plain_text_def plain_char_def shlex_quotes_def)

lemma compile_stage_clean:
  assumes cl: "no_braces (compiler_cl self)" "plain_text (compiler_cl self)"
    and tmp: "clean_path tmp_path"
  shows "compile_stage self tmp_path script =
     Inr (split_ws [] (compiler_cl self) @
          (if is_kotlin (detect_dialect tmp_path script)
           then [tmp_path @ ''/Main.kt'', ''-include-runtime'', ''-d'', tmp_path @ ''/Main.jar'']
           else if truthy (timeout self) \<or> truthy (memory_limit self)
           then [tmp_path @ ''/Main.java'', tmp_path @ ''/ResourceLimit.java'']
           else [tmp_path @ ''/Main.java'']))"
proof -
  let ?d = "detect_dialect tmp_path script"
  let ?args = "if is_kotlin ?d
           then [tmp_path @ ''/Main.kt'', ''-include-runtime'', ''-d'', tmp_path @ ''/Main.jar'']
           else if truthy (timeout self) \<or> truthy (memory_limit self)
           then [tmp_path @ ''/Main.java'', tmp_path @ ''/ResourceLimit.java'']
           else [tmp_path @ ''/Main.java'']"
  let ?line = "compile_line self tmp_path ?d (resource_limit_file self tmp_path (is_kotlin ?d))"
  from tmp have t: "plain_text tmp_path" "no_braces tmp_path"
    "list_all (\<lambda>c. \<not> shlex_whitespace c) tmp_path"
    by (simp_all add: clean_path_def)
  have line: "?line = compiler_cl self @ concat (map ((#) CHR '' '') ?args)"
    by (simp add: compile_line_def resource_limit_file_def java_source_file kotlin_source_file)
  have words: "list_all (\<lambda>w. w \<noteq> [] \<and> list_all (\<lambda>c. \<not> shlex_whitespace c) w) ?args"
    using t(3) by (simp add: shlex_whitespace_def)
  have plain: "plain_text ?line"
    unfolding line using cl(2) t(1)
    by (simp add: plain_text_append plain_text_Cons squote_def dquote_def backslash_def)
  have "compile_stage self tmp_path script = shlex_split ?line"
    by (rule compile_stage_no_braces [OF cl(1) t(2)])
  also have "\<dots> = Inr (split_ws [] ?line)"
    by (rule shlex_split_plain [OF plain])
  also have "split_ws [] ?line = split_ws [] (compiler_cl self) @ ?args"
    unfolding line by (rule split_ws_command [OF words])
  finally show ?thesis .
qed

lemma guard_path_not_source:
  "source_file (detect_dialect tmp_path script) \<noteq> tmp_path @ ''/ResourceLimit.java''"
  by (simp add: detect_dialect_def)

text \<open>
  C4. The file \<open>ResourceLimit.java\<close> is written, with the rendered guard template, exactly
  when the dialect is the class-wrapper one and the timeout or the memory limit is set
  (an absent limit and the limit 0 count as not set); otherwise the path is left as it
  was. For a command line and a scratch path without quotes, braces and blanks in the
  path, the compile command is the compiler's words followed by \<open>Main.java\<close> and, in that
  case only, \<open>ResourceLimit.java\<close>; the script-style dialect compiles \<open>Main.kt\<close> alone.
\<close>

theorem guard_injection_policy:
  assumes "no_braces (compiler_cl self)" "plain_text (compiler_cl self)" "clean_path tmp_path"
  shows "(guarded self tmp_path script \<longleftrightarrow>
            \<not> is_kotlin (detect_dialect tmp_path script)
            \<and> (truthy (timeout self) \<or> truthy (memory_limit self)))
       \<and> fst (setup_command self env tmp_path script fs) (tmp_path @ ''/ResourceLimit.java'') =
           (if guarded self tmp_path script
            then Some (resource_limit_java (str_int (or_zero (timeout self)))
                   (str_int (or_zero (memory_limit self))) (str_int (TIMEOUT_EXIT_CODE env)))
            else fs (tmp_path @ ''/ResourceLimit.java''))
       \<and> compile_stage self tmp_path script =
           Inr (split_ws [] (compiler_cl self) @
                (if is_kotlin (detect_dialect tmp_path script)
                 then [tmp_path @ ''/Main.kt'', ''-include-runtime'', ''-d'',
                       tmp_path @ ''/Main.jar'']
                 else if guarded self tmp_path script
                 then [tmp_path @ ''/Main.java'', tmp_path @ ''/ResourceLimit.java'']
                 else [tmp_path @ ''/Main.java'']))"
  using compile_stage_clean [OF assms, of script] guard_path_not_source [of tmp_path script]
  by (simp add: setup_command_files Let_def guarded_def)

theorem guard_injection_policy_witness:
  "no_braces (compiler_cl javac_executor) \<and> plain_text (compiler_cl javac_executor)
   \<and> clean_path ''/tmp/x''
   \<and> guarded javac_executor ''/tmp/x'' ''System.out.println(42);''
   \<and> \<not> guarded javac_executor ''/tmp/x'' ''fun main() { println(42) }''
   \<and> compile_stage javac_executor ''/tmp/x'' ''System.out.println(42);'' =
       Inr [''javac'', ''/tmp/x/Main.java'', ''/tmp/x/ResourceLimit.java'']
   \<and> compile_stage javac_executor ''/tmp/x'' ''fun main() { println(42) }'' =
       Inr [''javac'', ''/tmp/x/Main.kt'', ''-include-runtime'', ''-d'', ''/tmp/x/Main.jar'']"
proof -
  have a: "no_braces (compiler_cl javac_executor)" "plain_text (compiler_cl javac_executor)"
    "clean_path ''/tmp/x''"
    by code_simp+
  have g: "guarded javac_executor ''/tmp/x'' ''System.out.println(42);''"
    "\<not> guarded javac_executor ''/tmp/x'' ''fun main() { println(42) }''"
    "is_kotlin (detect_dialect ''/tmp/x'' ''fun main() { println(42) }'')"
    "\<not> is_kotlin (detect_dialect ''/tmp/x'' ''System.out.println(42);'')"
    "split_ws [] (compiler_cl javac_executor) = [''javac'']"
    by code_simp+
  from guard_injection_policy [OF a, of "''System.out.println(42);''" exit_zero_module Map.empty]
    guard_injection_policy [OF a, of "''fun main() { println(42) }''" exit_zero_module Map.empty]
    a g
  show ?thesis by simp
qed

section \<open>The command vectors\<close>

lemma has_whitespace_not_token:
  assumes "plain_text line" "shlex_split line = Inr argv"
    and "\<not> list_all (\<lambda>c. \<not> shlex_whitespace c) p"
  shows "p \<notin> set argv"
proof
  assume "p \<in> set argv"
  with assms(1,2) have "p \<in> set (split_ws [] line)"
    by (simp add: shlex_split_plain)
  then have "list_all (\<lambda>c. \<not> shlex_whitespace c) p"
    by (rule split_ws_tokens) simp
  with assms(3) show False by simp
qed

lemma plain_compile_line:
  "plain_text (compiler_cl self) \<Longrightarrow> plain_text tmp_path \<Longrightarrow>
   plain_text (compile_line self tmp_path (detect_dialect tmp_path script)
     (resource_limit_file self tmp_path (is_kotlin (detect_dialect tmp_path script))))"
  by (simp add: compile_line_def detect_dialect_def resource_limit_file_def plain_text_append
      plain_text_Cons squote_def dquote_def backslash_def)

lemma plain_java_run_line:
  "plain_text (run_cl self) \<Longrightarrow> plain_text tmp_path \<Longrightarrow>
   \<not> is_kotlin (detect_dialect tmp_path script) \<Longrightarrow>
   plain_text (run_line self tmp_path (detect_dialect tmp_path script))"
  by (simp add: run_line_def detect_dialect_def plain_text_append
      plain_text_Cons squote_def dquote_def backslash_def split: if_splits)

text \<open>
  C10, as the code has it. The string that \<open>.format\<close> receives is the f-string's value,
  with the configured command line and the scratch path in it, so \<open>.format\<close> leaves it
  as it is when these contain no brace: then each command is \<open>shlex_split\<close> of the
  interpolated line. If they contain no quote and no backslash either, every argument is
  free of whitespace, so with whitespace in the scratch path neither the source file's
  path nor the path itself is an argument of the compile command, and the class path is
  not an argument of the class-wrapper dialect's run command.
\<close>

theorem commands_without_braces:
  assumes "no_braces (compiler_cl self)" "no_braces (run_cl self)" "no_braces tmp_path"
  shows "compile_stage self tmp_path script =
           shlex_split (compile_line self tmp_path (detect_dialect tmp_path script)
             (resource_limit_file self tmp_path (is_kotlin (detect_dialect tmp_path script))))
       \<and> run_stage self tmp_path script =
           shlex_split (run_line self tmp_path (detect_dialect tmp_path script))
       \<and> (plain_text (compiler_cl self) \<and> plain_text tmp_path
            \<and> (\<exists>c \<in> set tmp_path. shlex_whitespace c) \<longrightarrow>
            (\<exists>argv. compile_stage self tmp_path script = Inr argv
               \<and> source_file (detect_dialect tmp_path script) \<notin> set argv
               \<and> tmp_path \<notin> set argv))
       \<and> (plain_text (run_cl self) \<and> plain_text tmp_path
            \<and> (\<exists>c \<in> set tmp_path. shlex_whitespace c)
            \<and> \<not> is_kotlin (detect_dialect tmp_path script) \<longrightarrow>
            (\<exists>argv. run_stage self tmp_path script = Inr argv \<and> tmp_path \<notin> set argv))"
proof (intro conjI impI)
  let ?d = "detect_dialect tmp_path script"
  let ?cline = "compile_line self tmp_path ?d (resource_limit_file self tmp_path (is_kotlin ?d))"
  show c: "compile_stage self tmp_path script = shlex_split ?cline"
    by (rule compile_stage_no_braces [OF assms(1,3)])
  show r: "run_stage self tmp_path script = shlex_split (run_line self tmp_path ?d)"
    by (rule run_stage_no_braces [OF assms(2,3)])
  {
    assume h: "plain_text (compiler_cl self) \<and> plain_text tmp_path
      \<and> (\<exists>c \<in> set tmp_path. shlex_whitespace c)"
    then have plain: "plain_text ?cline"
      by (simp add: plain_compile_line)
    from h have ws: "\<not> list_all (\<lambda>c. \<not> shlex_whitespace c) tmp_path"
      by (auto simp: list_all_iff)
    then have ws': "\<not> list_all (\<lambda>c. \<not> shlex_whitespace c) (source_file ?d)"
      by (simp add: detect_dialect_def)
    have s: "shlex_split ?cline = Inr (split_ws [] ?cline)"
      by (rule shlex_split_plain [OF plain])
    show "\<exists>argv. compile_stage self tmp_path script = Inr argv
        \<and> source_file ?d \<notin> set argv \<and> tmp_path \<notin> set argv"
      using has_whitespace_not_token [OF plain s ws] has_whitespace_not_token [OF plain s ws']
      by (simp add: c s)
  }
  {
    assume h: "plain_text (run_cl self) \<and> plain_text tmp_path
      \<and> (\<exists>c \<in> set tmp_path. shlex_whitespace c) \<and> \<not> is_kotlin ?d"
    then have plain: "plain_text (run_line self tmp_path ?d)"
      by (simp add: plain_java_run_line)
    from h have ws: "\<not> list_all (\<lambda>c. \<not> shlex_whitespace c) tmp_path"
      by (auto simp: list_all_iff)
    have s: "shlex_split (run_line self tmp_path ?d) = Inr (split_ws [] (run_line self tmp_path ?d))"
      by (rule shlex_split_plain [OF plain])
    show "\<exists>argv. run_stage self tmp_path script = Inr argv \<and> tmp_path \<notin> set argv"
      using has_whitespace_not_token [OF plain s ws]
      by (simp add: r s)
  }
qed

theorem commands_without_braces_witness:
  "no_braces (compiler_cl javac_executor) \<and> no_braces (run_cl javac_executor)
   \<and> no_braces ''/tmp/my dir''
   \<and> plain_text (compiler_cl javac_executor) \<and> plain_text (run_cl javac_executor)
   \<and> plain_text ''/tmp/my dir'' \<and> (\<exists>c \<in> set ''/tmp/my dir''. shlex_whitespace c)
   \<and> \<not> is_kotlin (detect_dialect ''/tmp/my dir'' ''System.out.println(42);'')
   \<and> compile_stage javac_executor ''/tmp/my dir'' ''System.out.println(42);'' =
       Inr [''javac'', ''/tmp/my'', ''dir/Main.java'', ''/tmp/my'', ''dir/ResourceLimit.java'']
   \<and> (\<exists>argv. compile_stage javac_executor ''/tmp/my dir'' ''System.out.println(42);'' = Inr argv
         \<and> ''/tmp/my dir/Main.java'' \<notin> set argv)
   \<and> (\<exists>argv. run_stage javac_executor ''/tmp/my dir'' ''System.out.println(42);'' = Inr argv
         \<and> ''/tmp/my dir'' \<notin> set argv)"
proof -
  have a: "no_braces (compiler_cl javac_executor)" "no_braces (run_cl javac_executor)"
    "no_braces ''/tmp/my dir''"
    by code_simp+
  have b: "plain_text (compiler_cl javac_executor)" "plain_text (run_cl javac_executor)"
    "plain_text ''/tmp/my dir''" "\<exists>c \<in> set ''/tmp/my dir''. shlex_whitespace c"
    "\<not> is_kotlin (detect_dialect ''/tmp/my dir'' ''System.out.println(42);'')"
    by code_simp+
  have c: "compile_stage javac_executor ''/tmp/my dir'' ''System.out.println(42);'' =
       Inr [''javac'', ''/tmp/my'', ''dir/Main.java'', ''/tmp/my'', ''dir/ResourceLimit.java'']"
    by code_simp
  have s: "source_file (detect_dialect ''/tmp/my dir'' ''System.out.println(42);'')
      = ''/tmp/my dir/Main.java''"
    by code_simp
  note t = commands_without_braces [OF a, of "''System.out.println(42);''"]
  from t b have "\<exists>argv. compile_stage javac_executor ''/tmp/my dir'' ''System.out.println(42);''
        = Inr argv
      \<and> source_file (detect_dialect ''/tmp/my dir'' ''System.out.println(42);'') \<notin> set argv
      \<and> ''/tmp/my dir'' \<notin> set argv"
    by blast
  then have e1: "\<exists>argv. compile_stage javac_executor ''/tmp/my dir''
        ''System.out.println(42);'' = Inr argv \<and> ''/tmp/my dir/Main.java'' \<notin> set argv"
    unfolding s by blast
  from t b have e2: "\<exists>argv. run_stage javac_executor ''/tmp/my dir''
        ''System.out.println(42);'' = Inr argv \<and> ''/tmp/my dir'' \<notin> set argv"
    by blast
  from a b c e1 e2 show ?thesis by blast
qed

text \<open>
  The claim as stated fails for a compiler command line with a placeholder: \<open>.format\<close>
  replaces \<open>{source}\<close> by the quoted source path, and the compile command is not
  \<open>shlex_split\<close> of the interpolated line.
\<close>

theorem format_substitutes_counterexample:
  "compile_stage format_executor ''/tmp/x'' ''System.out.println(42);''
     = Inr [''javac'', ''/tmp/x/Main.java'', ''/tmp/x/Main.java'']
   \<and> shlex_split (compile_line format_executor ''/tmp/x''
         (detect_dialect ''/tmp/x'' ''System.out.println(42);'')
         (resource_limit_file format_executor ''/tmp/x''
            (is_kotlin (detect_dialect ''/tmp/x'' ''System.out.println(42);''))))
     = Inr [''javac'', ''{source}'', ''/tmp/x/Main.java'']
   \<and> compile_stage format_executor ''/tmp/x'' ''System.out.println(42);''
     \<noteq> shlex_split (compile_line format_executor ''/tmp/x''
         (detect_dialect ''/tmp/x'' ''System.out.println(42);'')
         (resource_limit_file format_executor ''/tmp/x''
            (is_kotlin (detect_dialect ''/tmp/x'' ''System.out.println(42);''))))"
  by code_simp

section \<open>Dialect detection\<close>

lemma rstrip_prefix: "prefix (rstrip x) x"
  by (induction x) (auto split: list.splits)

lemma prefix_rstrip_append:
  "a \<noteq> [] \<Longrightarrow> \<not> py_isspace (last a) \<Longrightarrow> prefix a (rstrip (a @ y))"
proof (induction a)
  case Nil
  then show ?case by simp
next
  case (Cons c a)
  show ?case
  proof (cases "a = []")
    case True
    with Cons.prems show ?thesis by (simp split: list.splits)
  next
    case False
    with Cons have p: "prefix a (rstrip (a @ y))" by simp
    with False obtain d ds where "rstrip (a @ y) = d # ds"
      by (cases "rstrip (a @ y)") auto
    with p show ?thesis by simp
  qed
qed

lemma public_class_strip:
  "prefix ''public class'' (strip s) \<longleftrightarrow> prefix ''public class'' (dropWhile py_isspace s)"
proof
  assume "prefix ''public class'' (strip s)"
  then show "prefix ''public class'' (dropWhile py_isspace s)"
    unfolding strip_def using rstrip_prefix prefix_order.trans by blast
next
  assume "prefix ''public class'' (dropWhile py_isspace s)"
  then obtain y where y: "dropWhile py_isspace s = ''public class'' @ y"
    by (auto simp: prefix_def)
  have "prefix ''public class'' (rstrip (''public class'' @ y))"
    by (rule prefix_rstrip_append) (simp_all add: py_isspace_def)
  then show "prefix ''public class'' (strip s)"
    by (simp add: strip_def y)
qed

lemma str_contains_set: "str_contains sub s \<Longrightarrow> set sub \<subseteq> set s"
proof (induction s)
  case Nil
  then show ?case by simp
next
  case (Cons c s)
  then show ?case
    using set_mono_prefix [of sub "c # s"] by auto
qed

lemma lower_char_k: "lower_char c = CHR ''k'' \<Longrightarrow> c = CHR ''k'' \<or> c = CHR ''K''"
  by (simp add: lower_char_def upper_chars_def lower_chars_def split: if_splits)

lemma no_marker_in_spaces_and_public_class:
  assumes "set t \<subseteq> {c. py_isspace c} \<union> set ''public class''"
  shows "\<not> str_contains ''fun main'' t" "\<not> str_contains ''kotlin'' (lower t)"
proof -
  show "\<not> str_contains ''fun main'' t"
  proof
    assume "str_contains ''fun main'' t"
    then have "CHR ''f'' \<in> set t"
      using str_contains_set by fastforce
    with assms show False
      by (auto simp: py_isspace_def)
  qed
  show "\<not> str_contains ''kotlin'' (lower t)"
  proof
    assume "str_contains ''kotlin'' (lower t)"
    then have "CHR ''k'' \<in> set (lower t)"
      using str_contains_set by fastforce
    then obtain c where "c \<in> set t" "lower_char c = CHR ''k''"
      by (auto simp: lower_def)
    with assms lower_char_k [of c] show False
      by (auto simp: py_isspace_def)
  qed
qed

lemma take_over: "length a \<le> n \<Longrightarrow> take n (a @ y) = a @ take (n - length a) y"
  by simp

lemma take_within: "n \<le> length a \<Longrightarrow> take n (a @ y) = take n a"
  by simp

lemma public_class_in_first_200:
  assumes lead: "prefix ''public class'' (dropWhile py_isspace s)"
    and marker: "str_contains ''fun main'' (take 200 s)
                 \<or> str_contains ''kotlin'' (lower (take 200 s))"
  shows "prefix ''public class'' (dropWhile py_isspace (take 200 s))"
proof -
  define w where "w = takeWhile py_isspace s"
  define p where "p = ''public class''"
  from lead obtain y where y: "dropWhile py_isspace s = p @ y"
    by (auto simp: prefix_def p_def)
  have s: "s = (w @ p) @ y"
    unfolding w_def using y [symmetric] by simp
  have w: "list_all py_isspace w"
    unfolding w_def list_all_iff using set_takeWhileD by fastforce
  have p: "p \<noteq> []" "\<not> py_isspace (hd p)"
    by (simp_all add: p_def py_isspace_def)
  show ?thesis
  proof (cases "length (w @ p) \<le> 200")
    case True
    then have "take 200 s = w @ (p @ take (200 - length (w @ p)) y)"
      unfolding s using take_over [of "w @ p" 200 y] by simp
    moreover have "dropWhile py_isspace (w @ (p @ z)) = p @ z" for z
      using dropWhile_space_append [OF w, of "p @ z"] p by simp
    ultimately show ?thesis by (simp add: p_def)
  next
    case False
    then have "take 200 s = take 200 (w @ p)"
      unfolding s using take_within [of 200 "w @ p" y] by simp
    then have "set (take 200 s) \<subseteq> set (w @ p)"
      by (metis set_take_subset)
    with w have "set (take 200 s) \<subseteq> {c. py_isspace c} \<union> set ''public class''"
      by (auto simp: list_all_iff p_def)
    with marker no_marker_in_spaces_and_public_class show ?thesis by blast
  qed
qed

lemma public_class_from_prefix:
  assumes "prefix ''public class'' (dropWhile py_isspace (take n s))"
  shows "prefix ''public class'' (dropWhile py_isspace s)"
proof -
  have "dropWhile py_isspace (take n s) \<noteq> []"
  proof
    assume "dropWhile py_isspace (take n s) = []"
    with assms show False by simp
  qed
  then obtain x where "x \<in> set (take n s)" "\<not> py_isspace x"
    by auto
  then have "dropWhile py_isspace (take n s @ drop n s)
      = dropWhile py_isspace (take n s) @ drop n s"
    by (rule dropWhile_append1)
  then have "dropWhile py_isspace s = dropWhile py_isspace (take n s) @ drop n s"
    by simp
  with assms show ?thesis
    by (metis prefix_prefix)
qed

lemma detect_dialect_first_200:
  "detect_dialect tmp_path script =
     (if (str_contains ''fun main'' (take 200 script)
          \<or> str_contains ''kotlin'' (lower (take 200 script)))
         \<and> \<not> prefix ''public class'' (dropWhile py_isspace (take 200 script))
         \<and> \<not> str_contains ''class '' (take 200 script)
      then \<lparr>source_file = tmp_path @ ''/Main.kt'', class_name = ''MainKt'', is_kotlin = True\<rparr>
      else \<lparr>source_file = tmp_path @ ''/Main.java'', class_name = ''Main'', is_kotlin = False\<rparr>)"
  using public_class_in_first_200 [of script] public_class_from_prefix [of 200 script]
  by (auto simp: detect_dialect_def public_class_strip)

text \<open>
  C5. The dialect depends on the first 200 characters of the script only. A class
  declaration there (the text \<open>class\<close> and a blank, or \<open>public class\<close> at the start
  after leading whitespace) selects the class-wrapper dialect; without one, \<open>fun main\<close>
  or, in any letter case, \<open>kotlin\<close> among these characters selects the script-style
  dialect; with neither marker the class-wrapper dialect is the default.
\<close>

theorem dialect_from_first_200:
  assumes "take 200 script = take 200 script'"
  shows "detect_dialect tmp_path script = detect_dialect tmp_path script'
       \<and> (prefix ''public class'' (strip script) \<or> str_contains ''class '' (take 200 script)
            \<longrightarrow> detect_dialect tmp_path script =
                 \<lparr>source_file = tmp_path @ ''/Main.java'', class_name = ''Main'',
                  is_kotlin = False\<rparr>)
       \<and> (\<not> prefix ''public class'' (strip script)
            \<and> \<not> str_contains ''class '' (take 200 script)
            \<and> (str_contains ''fun main'' (take 200 script)
                 \<or> str_contains ''kotlin'' (lower (take 200 script)))
            \<longrightarrow> detect_dialect tmp_path script =
                 \<lparr>source_file = tmp_path @ ''/Main.kt'', class_name = ''MainKt'',
                  is_kotlin = True\<rparr>)
       \<and> (\<not> str_contains ''fun main'' (take 200 script)
            \<and> \<not> str_contains ''kotlin'' (lower (take 200 script))
            \<longrightarrow> detect_dialect tmp_path script =
                 \<lparr>source_file = tmp_path @ ''/Main.java'', class_name = ''Main'',
                  is_kotlin = False\<rparr>)"
proof (intro conjI)
  show "detect_dialect tmp_path script = detect_dialect tmp_path script'"
    by (simp only: detect_dialect_first_200 assms)
qed (simp_all add: detect_dialect_def)

theorem dialect_from_first_200_witness:
  "take 200 (replicate 195 CHR '' '' @ ''fun main() {}'' @ ''// one'')
     = take 200 (replicate 195 CHR '' '' @ ''fun main() {}'' @ ''// class Two'')
   \<and> detect_dialect ''/tmp/x'' (replicate 195 CHR '' '' @ ''fun main() {}'' @ ''// one'')
     = detect_dialect ''/tmp/x'' (replicate 195 CHR '' '' @ ''fun main() {}'' @ ''// class Two'')
   \<and> detect_dialect ''/tmp/x'' ''fun main() { println(42) }''
     = \<lparr>source_file = ''/tmp/x/Main.kt'', class_name = ''MainKt'', is_kotlin = True\<rparr>
   \<and> detect_dialect ''/tmp/x'' ''System.out.println(42);''
     = \<lparr>source_file = ''/tmp/x/Main.java'', class_name = ''Main'', is_kotlin = False\<rparr>"
proof -
  have t: "take 200 (replicate 195 CHR '' '' @ ''fun main() {}'' @ ''// one'')
     = take 200 (replicate 195 CHR '' '' @ ''fun main() {}'' @ ''// class Two'')"
    by simp
  have k: "\<not> prefix ''public class'' (strip ''fun main() { println(42) }'')
      \<and> \<not> str_contains ''class '' (take 200 ''fun main() { println(42) }'')
      \<and> (str_contains ''fun main'' (take 200 ''fun main() { println(42) }'')
           \<or> str_contains ''kotlin'' (lower (take 200 ''fun main() { println(42) }'')))"
    by code_simp
  have j: "\<not> str_contains ''fun main'' (take 200 ''System.out.println(42);'')
      \<and> \<not> str_contains ''kotlin'' (lower (take 200 ''System.out.println(42);''))"
    by code_simp
  from dialect_from_first_200 [OF t, of "''/tmp/x''"]
    dialect_from_first_200 [OF refl, of "''/tmp/x''" "''fun main() { println(42) }''"]
    dialect_from_first_200 [OF refl, of "''/tmp/x''" "''System.out.println(42);''"] t k j
  show ?thesis by simp
qed

section \<open>The guard source\<close>

lemma exit_calls:
  assumes "numeric t" "numeric m" "numeric c"
  shows "call_args ''System.exit('' (resource_limit_java t m c) = [c, c, c]"
proof -
  let ?kw = "[(''timeout'', t), (''memory_limit'', m), (''TIMEOUT_EXIT_CODE'', c)]"
  let ?R = "\<lambda>ps. concat (map (render ?kw) ps)"
  let ?f = "''System.exit(''"
  have skip: "call_args ?f (s @ r) = call_args ?f r" if "numeric s" for s r
    using that by (induction s) (auto simp: numeric_def)
  have arg: "takeWhile (\<lambda>x. x \<noteq> CHR '')'') (s @ CHR '')'' # r) = s" if "numeric s" for s r
    using that by (induction s) (auto simp: numeric_def)
  note num = skip [OF assms(1)] skip [OF assms(2)] skip [OF assms(3)]
    arg [OF assms(1)] arg [OF assms(3)]
  have p0: "call_args ?f (?R (take 8 (drop 0 template_pieces)) @ r) = [] @ call_args ?f r" for r
    by (simp add: template_pieces_def num)
  have p8: "call_args ?f (?R (take 8 (drop 8 template_pieces)) @ r) = [] @ call_args ?f r" for r
    by (simp add: template_pieces_def num)
  have p16: "call_args ?f (?R (take 9 (drop 16 template_pieces)) @ r) = [] @ call_args ?f r" for r
    by (simp add: template_pieces_def num)
  have p25: "call_args ?f (?R (take 7 (drop 25 template_pieces)) @ r) = [c] @ call_args ?f r" for r
    by (simp add: template_pieces_def num)
  have p32: "call_args ?f (?R (take 8 (drop 32 template_pieces)) @ r) = [] @ call_args ?f r" for r
    by (simp add: template_pieces_def num)
  have p40: "call_args ?f (?R (take 8 (drop 40 template_pieces)) @ r) = [] @ call_args ?f r" for r
    by (simp add: template_pieces_def num)
  have p48: "call_args ?f (?R (take 8 (drop 48 template_pieces)) @ r) = [] @ call_args ?f r" for r
    by (simp add: template_pieces_def num)
  have p56: "call_args ?f (?R (take 6 (drop 56 template_pieces)) @ r) = [] @ call_args ?f r" for r
    by (simp add: template_pieces_def num)
  have p62: "call_args ?f (?R (take 7 (drop 62 template_pieces)) @ r) = [c] @ call_args ?f r" for r
    by (simp add: template_pieces_def num)
  have p69: "call_args ?f (?R (take 7 (drop 69 template_pieces)) @ r) = [] @ call_args ?f r" for r
    by (simp add: template_pieces_def num)
  have p76: "call_args ?f (?R (take 8 (drop 76 template_pieces)) @ r) = [] @ call_args ?f r" for r
    by (simp add: template_pieces_def num)
  have p84: "call_args ?f (?R (take 8 (drop 84 template_pieces)) @ r) = [] @ call_args ?f r" for r
    by (simp add: template_pieces_def num)
  have p92: "call_args ?f (?R (take 8 (drop 92 template_pieces)) @ r) = [] @ call_args ?f r" for r
    by (simp add: template_pieces_def num)
  have p100: "call_args ?f (?R (take 8 (drop 100 template_pieces)) @ r) = [c] @ call_args ?f r" for r
    by (simp add: template_pieces_def num)
  have p108: "call_args ?f (?R (take 7 (drop 108 template_pieces)) @ r) = [] @ call_args ?f r" for r
    by (simp add: template_pieces_def num)
  have parts: "template_pieces = take 8 (drop 0 template_pieces)
      @ take 8 (drop 8 template_pieces)
      @ take 9 (drop 16 template_pieces)
      @ take 7 (drop 25 template_pieces)
      @ take 8 (drop 32 template_pieces)
      @ take 8 (drop 40 template_pieces)
      @ take 8 (drop 48 template_pieces)
      @ take 6 (drop 56 template_pieces)
      @ take 7 (drop 62 template_pieces)
      @ take 7 (drop 69 template_pieces)
      @ take 8 (drop 76 template_pieces)
      @ take 8 (drop 84 template_pieces)
      @ take 8 (drop 92 template_pieces)
      @ take 8 (drop 100 template_pieces)
      @ take 7 (drop 108 template_pieces)"
    by (simp add: template_pieces_def)
  have "?R template_pieces = ?R (take 8 (drop 0 template_pieces)
      @ take 8 (drop 8 template_pieces)
      @ take 9 (drop 16 template_pieces)
      @ take 7 (drop 25 template_pieces)
      @ take 8 (drop 32 template_pieces)
      @ take 8 (drop 40 template_pieces)
      @ take 8 (drop 48 template_pieces)
      @ take 6 (drop 56 template_pieces)
      @ take 7 (drop 62 template_pieces)
      @ take 7 (drop 69 template_pieces)
      @ take 8 (drop 76 template_pieces)
      @ take 8 (drop 84 template_pieces)
      @ take 8 (drop 92 template_pieces)
      @ take 8 (drop 100 template_pieces)
      @ take 7 (drop 108 template_pieces))"
    using parts by (rule arg_cong)
  then have "?R template_pieces = ?R (take 8 (drop 0 template_pieces))
      @ ?R (take 8 (drop 8 template_pieces))
      @ ?R (take 9 (drop 16 template_pieces))
      @ ?R (take 7 (drop 25 template_pieces))
      @ ?R (take 8 (drop 32 template_pieces))
      @ ?R (take 8 (drop 40 template_pieces))
      @ ?R (take 8 (drop 48 template_pieces))
      @ ?R (take 6 (drop 56 template_pieces))
      @ ?R (take 7 (drop 62 template_pieces))
      @ ?R (take 7 (drop 69 template_pieces))
      @ ?R (take 8 (drop 76 template_pieces))
      @ ?R (take 8 (drop 84 template_pieces))
      @ ?R (take 8 (drop 92 template_pieces))
      @ ?R (take 8 (drop 100 template_pieces))
      @ ?R (take 7 (drop 108 template_pieces)) @ []"
    by (simp only: map_append concat_append append_Nil2 append_assoc)
  then have "call_args ?f (?R template_pieces) = [c, c, c]"
    by (simp only: p0 p8 p16 p25 p32 p40 p48 p56 p62 p69 p76 p84 p92 p100 p108 call_args.simps append_Nil append_Cons)
  then show ?thesis
    by (simp only: render_template_pieces)
qed

lemma sleep_calls:
  assumes "numeric t" "numeric m" "numeric c"
  shows "call_args ''Thread.sleep('' (resource_limit_java t m c) = [t, ''100'']"
proof -
  let ?kw = "[(''timeout'', t), (''memory_limit'', m), (''TIMEOUT_EXIT_CODE'', c)]"
  let ?R = "\<lambda>ps. concat (map (render ?kw) ps)"
  let ?f = "''Thread.sleep(''"
  have skip: "call_args ?f (s @ r) = call_args ?f r" if "numeric s" for s r
    using that by (induction s) (auto simp: numeric_def)
  have arg: "takeWhile (\<lambda>x. x \<noteq> CHR '')'') (s @ CHR '')'' # r) = s" if "numeric s" for s r
    using that by (induction s) (auto simp: numeric_def)
  note num = skip [OF assms(1)] skip [OF assms(2)] skip [OF assms(3)]
    arg [OF assms(1)] arg [OF assms(3)]
  have p0: "call_args ?f (?R (take 8 (drop 0 template_pieces)) @ r) = [] @ call_args ?f r" for r
    by (simp add: template_pieces_def num)
  have p8: "call_args ?f (?R (take 8 (drop 8 template_pieces)) @ r) = [] @ call_args ?f r" for r
    by (simp add: template_pieces_def num)
  have p16: "call_args ?f (?R (take 9 (drop 16 template_pieces)) @ r) = [] @ call_args ?f r" for r
    by (simp add: template_pieces_def num)
  have p25: "call_args ?f (?R (take 7 (drop 25 template_pieces)) @ r) = [t] @ call_args ?f r" for r
    by (simp add: template_pieces_def num)
  have p32: "call_args ?f (?R (take 8 (drop 32 template_pieces)) @ r) = [] @ call_args ?f r" for r
    by (simp add: template_pieces_def num)
  have p40: "call_args ?f (?R (take 8 (drop 40 template_pieces)) @ r) = [] @ call_args ?f r" for r
    by (simp add: template_pieces_def num)
  have p48: "call_args ?f (?R (take 8 (drop 48 template_pieces)) @ r) = [] @ call_args ?f r" for r
    by (simp add: template_pieces_def num)
  have p56: "call_args ?f (?R (take 6 (drop 56 template_pieces)) @ r) = [] @ call_args ?f r" for r
    by (simp add: template_pieces_def num)
  have p62: "call_args ?f (?R (take 7 (drop 62 template_pieces)) @ r) = [] @ call_args ?f r" for r
    by (simp add: template_pieces_def num)
  have p69: "call_args ?f (?R (take 7 (drop 69 template_pieces)) @ r) = [''100''] @ call_args ?f r" for r
    by (simp add: template_pieces_def num)
  have p76: "call_args ?f (?R (take 8 (drop 76 template_pieces)) @ r) = [] @ call_args ?f r" for r
    by (simp add: template_pieces_def num)
  have p84: "call_args ?f (?R (take 8 (drop 84 template_pieces)) @ r) = [] @ call_args ?f r" for r
    by (simp add: template_pieces_def num)
  have p92: "call_args ?f (?R (take 8 (drop 92 template_pieces)) @ r) = [] @ call_args ?f r" for r
    by (simp add: template_pieces_def num)
  have p100: "call_args ?f (?R (take 8 (drop 100 template_pieces)) @ r) = [] @ call_args ?f r" for r
    by (simp add: template_pieces_def num)
  have p108: "call_args ?f (?R (take 7 (drop 108 template_pieces)) @ r) = [] @ call_args ?f r" for r
    by (simp add: template_pieces_def num)
  have parts: "template_pieces = take 8 (drop 0 template_pieces)
      @ take 8 (drop 8 template_pieces)
      @ take 9 (drop 16 template_pieces)
      @ take 7 (drop 25 template_pieces)
      @ take 8 (drop 32 template_pieces)
      @ take 8 (drop 40 template_pieces)
      @ take 8 (drop 48 template_pieces)
      @ take 6 (drop 56 template_pieces)
      @ take 7 (drop 62 template_pieces)
      @ take 7 (drop 69 template_pieces)
      @ take 8 (drop 76 template_pieces)
      @ take 8 (drop 84 template_pieces)
      @ take 8 (drop 92 template_pieces)
      @ take 8 (drop 100 template_pieces)
      @ take 7 (drop 108 template_pieces)"
    by (simp add: template_pieces_def)
  have "?R template_pieces = ?R (take 8 (drop 0 template_pieces)
      @ take 8 (drop 8 template_pieces)
      @ take 9 (drop 16 template_pieces)
      @ take 7 (drop 25 template_pieces)
      @ take 8 (drop 32 template_pieces)
      @ take 8 (drop 40 template_pieces)
      @ take 8 (drop 48 template_pieces)
      @ take 6 (drop 56 template_pieces)
      @ take 7 (drop 62 template_pieces)
      @ take 7 (drop 69 template_pieces)
      @ take 8 (drop 76 template_pieces)
      @ take 8 (drop 84 template_pieces)
      @ take 8 (drop 92 template_pieces)
      @ take 8 (drop 100 template_pieces)
      @ take 7 (drop 108 template_pieces))"
    using parts by (rule arg_cong)
  then have "?R template_pieces = ?R (take 8 (drop 0 template_pieces))
      @ ?R (take 8 (drop 8 template_pieces))
      @ ?R (take 9 (drop 16 template_pieces))
      @ ?R (take 7 (drop 25 template_pieces))
      @ ?R (take 8 (drop 32 template_pieces))
      @ ?R (take 8 (drop 40 template_pieces))
      @ ?R (take 8 (drop 48 template_pieces))
      @ ?R (take 6 (drop 56 template_pieces))
      @ ?R (take 7 (drop 62 template_pieces))
      @ ?R (take 7 (drop 69 template_pieces))
      @ ?R (take 8 (drop 76 template_pieces))
      @ ?R (take 8 (drop 84 template_pieces))
      @ ?R (take 8 (drop 92 template_pieces))
      @ ?R (take 8 (drop 100 template_pieces))
      @ ?R (take 7 (drop 108 template_pieces)) @ []"
    by (simp only: map_append concat_append append_Nil2 append_assoc)
  then have "call_args ?f (?R template_pieces) = [t, ''100'']"
    by (simp only: p0 p8 p16 p25 p32 p40 p48 p56 p62 p69 p76 p84 p92 p100 p108 call_args.simps append_Nil append_Cons)
  then show ?thesis
    by (simp only: render_template_pieces)
qed

lemma numeric_str_nat: "numeric (str_nat n)"
proof (induction n rule: str_nat.induct)
  case (1 n)
  have d: "digit_char k \<in> set ''-0123456789''" if "k < 10" for k
  proof -
    from that have "''0123456789'' ! k \<in> set ''0123456789''"
      by (intro nth_mem) simp
    then show ?thesis
      by (auto simp: digit_char_def)
  qed
  show ?case
  proof (cases "n < 10")
    case True
    then show ?thesis
      using d [of n] by (subst str_nat.simps) (simp add: numeric_def)
  next
    case False
    then have "numeric (str_nat (n div 10))"
      using "1" by simp
    then show ?thesis
      using False d [of "n mod 10"] by (subst str_nat.simps) (simp add: numeric_def)
  qed
qed

lemma numeric_str_int: "numeric (str_int i)"
  using numeric_str_nat [of "nat i"] numeric_str_nat [of "nat (- i)"]
  by (simp add: str_int_def numeric_def)

lemma str_nat_digit: "n < 10 \<Longrightarrow> str_nat n = [digit_char n]"
  by (subst str_nat.simps) simp

lemma str_nat_more:
  "10 \<le> n \<Longrightarrow> str_nat n = str_nat (n div 10) @ [digit_char (n mod 10)]"
  by (subst str_nat.simps) simp

lemma str_contains_here: "str_contains x (x @ b)"
proof (cases "x @ b")
  case Nil
  then show ?thesis by simp
next
  case (Cons a l)
  have "prefix x (x @ b)" by simp
  then show ?thesis unfolding Cons by simp
qed

lemma str_contains_mid: "str_contains x (a @ x @ b)"
  by (induction a) (simp_all add: str_contains_here)

lemma str_contains_chunk:
  "str_contains (concat (map f (take j (drop k ps)))) (concat (map f ps))"
proof -
  have "ps = take k ps @ take j (drop k ps) @ drop j (drop k ps)"
    by (metis append_take_drop_id)
  then have "concat (map f ps) = concat (map f (take k ps))
      @ concat (map f (take j (drop k ps))) @ concat (map f (drop j (drop k ps)))"
    by (metis concat_append map_append)
  then show ?thesis
    by (simp only: str_contains_mid)
qed

lemma timeout_watchdog_text:
  \<open>str_contains
     (''                Thread.sleep('' @ t @ '');\<newline>'' @
      ''                System.err.println("Suicide from timeout.");\<newline>'' @
      ''                System.exit('' @ c @ '');\<newline>'')
     (resource_limit_java t m c)\<close>
proof -
  let ?kw = "[(''timeout'', t), (''memory_limit'', m), (''TIMEOUT_EXIT_CODE'', c)]"
  have \<open>concat (map (render ?kw) (take 7 (drop 25 template_pieces))) =
      ''                Thread.sleep('' @ t @ '');\<newline>'' @
      ''                System.err.println("Suicide from timeout.");\<newline>'' @
      ''                System.exit('' @ c @ '');\<newline>''\<close>
    by (simp add: template_pieces_def)
  then show ?thesis
    using str_contains_chunk [of "render ?kw" 7 25 template_pieces]
    by (simp only: render_template_pieces)
qed

lemma memory_watchdog_text:
  \<open>str_contains
     (''        if (memoryLimitBytes > 0) {\<newline>'' @
      ''            Thread memoryThread = new Thread(() -> {\<newline>'' @
      ''                while (true) {\<newline>'' @
      ''                    try {\<newline>'' @
      ''                        MemoryMXBean memoryBean = ManagementFactory.getMemoryMXBean();\<newline>'' @
      ''                        long usedMemory = memoryBean.getHeapMemoryUsage().getUsed();\<newline>'' @
      ''                        if (usedMemory > memoryLimitBytes) {\<newline>'' @
      ''                            System.err.println("Memory limit exceeded.");\<newline>'' @
      ''                            System.exit('' @ c @ '');\<newline>'' @
      ''                        }\<newline>'' @
      ''                        Thread.sleep(100); // Check every 100ms\<newline>'')
     (resource_limit_java t m c)\<close>
proof -
  let ?kw = "[(''timeout'', t), (''memory_limit'', m), (''TIMEOUT_EXIT_CODE'', c)]"
  have \<open>concat (map (render ?kw) (take 25 (drop 48 template_pieces))) =
      ''        if (memoryLimitBytes > 0) {\<newline>'' @
      ''            Thread memoryThread = new Thread(() -> {\<newline>'' @
      ''                while (true) {\<newline>'' @
      ''                    try {\<newline>'' @
      ''                        MemoryMXBean memoryBean = ManagementFactory.getMemoryMXBean();\<newline>'' @
      ''                        long usedMemory = memoryBean.getHeapMemoryUsage().getUsed();\<newline>'' @
      ''                        if (usedMemory > memoryLimitBytes) {\<newline>'' @
      ''                            System.err.println("Memory limit exceeded.");\<newline>'' @
      ''                            System.exit('' @ c @ '');\<newline>'' @
      ''                        }\<newline>'' @
      ''                        Thread.sleep(100); // Check every 100ms\<newline>''\<close>
    by (simp add: template_pieces_def)
  then show ?thesis
    using str_contains_chunk [of "render ?kw" 25 48 template_pieces]
    by (simp only: render_template_pieces)
qed

lemma check_timeout_text:
  \<open>str_contains
     (''    public static void checkTimeout() {\<newline>'' @
      ''        long currentTime = System.nanoTime();\<newline>'' @
      ''        if (currentTime - startTime > timeoutNanos) {\<newline>'' @
      ''            System.err.println("Suicide from timeout.");\<newline>'' @
      ''            System.exit('' @ c @ '');\<newline>'')
     (resource_limit_java t m c)\<close>
proof -
  let ?kw = "[(''timeout'', t), (''memory_limit'', m), (''TIMEOUT_EXIT_CODE'', c)]"
  have \<open>concat (map (render ?kw) (take 11 (drop 97 template_pieces))) =
      ''    public static void checkTimeout() {\<newline>'' @
      ''        long currentTime = System.nanoTime();\<newline>'' @
      ''        if (currentTime - startTime > timeoutNanos) {\<newline>'' @
      ''            System.err.println("Suicide from timeout.");\<newline>'' @
      ''            System.exit('' @ c @ '');\<newline>''\<close>
    by (simp add: template_pieces_def)
  then show ?thesis
    using str_contains_chunk [of "render ?kw" 11 97 template_pieces]
    by (simp only: render_template_pieces)
qed

text \<open>
  C6. In the guard source that is written, the calls of \<open>System.exit\<close> are three and each
  has the timeout exit code as its argument: the one of the timeout watchdog after its
  sleep, the one of the memory watchdog, which stands in the loop that is started when
  \<open>memoryLimitBytes > 0\<close> and sleeps 100 ms in each round, and the one of \<open>checkTimeout\<close>.
  The calls of \<open>Thread.sleep\<close> are the watchdog's, with the timeout, and the loop's.
\<close>

theorem guard_exit_codes:
  \<open>\<exists>text. resource_limit_source self env = Inr text
     \<and> call_args ''System.exit('' text =
         [str_int (TIMEOUT_EXIT_CODE env), str_int (TIMEOUT_EXIT_CODE env),
          str_int (TIMEOUT_EXIT_CODE env)]
     \<and> call_args ''Thread.sleep('' text = [str_int (or_zero (timeout self)), ''100'']
     \<and> str_contains
         (''                Thread.sleep('' @ str_int (or_zero (timeout self)) @ '');\<newline>'' @
          ''                System.err.println("Suicide from timeout.");\<newline>'' @
          ''                System.exit('' @ str_int (TIMEOUT_EXIT_CODE env) @ '');\<newline>'') text
     \<and> str_contains
         (''        if (memoryLimitBytes > 0) {\<newline>'' @
          ''            Thread memoryThread = new Thread(() -> {\<newline>'' @
          ''                while (true) {\<newline>'' @
          ''                    try {\<newline>'' @
          ''                        MemoryMXBean memoryBean = ManagementFactory.getMemoryMXBean();\<newline>'' @
          ''                        long usedMemory = memoryBean.getHeapMemoryUsage().getUsed();\<newline>'' @
          ''                        if (usedMemory > memoryLimitBytes) {\<newline>'' @
          ''                            System.err.println("Memory limit exceeded.");\<newline>'' @
          ''                            System.exit('' @ str_int (TIMEOUT_EXIT_CODE env) @ '');\<newline>'' @
          ''                        }\<newline>'' @
          ''                        Thread.sleep(100); // Check every 100ms\<newline>'') text
     \<and> str_contains
         (''    public static void checkTimeout() {\<newline>'' @
          ''        long currentTime = System.nanoTime();\<newline>'' @
          ''        if (currentTime - startTime > timeoutNanos) {\<newline>'' @
          ''            System.err.println("Suicide from timeout.");\<newline>'' @
          ''            System.exit('' @ str_int (TIMEOUT_EXIT_CODE env) @ '');\<newline>'') text\<close>
  by (intro exI conjI, rule resource_limit_source_ok)
     (rule exit_calls sleep_calls numeric_str_int timeout_watchdog_text memory_watchdog_text
        check_timeout_text)+

theorem guard_exit_codes_witness:
  "\<exists>text. resource_limit_source javac_executor exit_zero_module = Inr text
     \<and> call_args ''System.exit('' text = [''124'', ''124'', ''124'']
     \<and> call_args ''Thread.sleep('' text = [''1000'', ''100'']"
proof -
  have v: "str_int (TIMEOUT_EXIT_CODE exit_zero_module) = ''124''"
    "str_int (or_zero (timeout javac_executor)) = ''1000''"
    by (simp_all add: exit_zero_module_def javac_executor_def or_zero_def str_int_def
        str_nat_digit str_nat_more digit_char_def)
  from guard_exit_codes [of javac_executor exit_zero_module] show ?thesis
    unfolding v by blast
qed

text \<open>
  C9. For the class-wrapper dialect with a memory limit and no timeout (absent or 0),
  the guard file is written all the same, with 0 in the place of the timeout: the
  timeout watchdog's text is \<open>Thread.sleep(0);\<close> followed by the exit with the timeout
  exit code, and the timeout in nanoseconds is \<open>0 * 1_000_000L\<close>.
\<close>

theorem zero_timeout_guard:
  assumes "\<not> is_kotlin (detect_dialect tmp_path script)"
    and "\<not> truthy (timeout self)"
    and "truthy (memory_limit self)"
  shows \<open>fst (setup_command self env tmp_path script fs) (tmp_path @ ''/ResourceLimit.java'') =
           Some (resource_limit_java ''0'' (str_int (or_zero (memory_limit self)))
                   (str_int (TIMEOUT_EXIT_CODE env)))
       \<and> call_args ''Thread.sleep(''
           (resource_limit_java ''0'' (str_int (or_zero (memory_limit self)))
              (str_int (TIMEOUT_EXIT_CODE env))) = [''0'', ''100'']
       \<and> str_contains
           (''                Thread.sleep('' @ ''0'' @ '');\<newline>'' @
            ''                System.err.println("Suicide from timeout.");\<newline>'' @
            ''                System.exit('' @ str_int (TIMEOUT_EXIT_CODE env) @ '');\<newline>'')
           (resource_limit_java ''0'' (str_int (or_zero (memory_limit self)))
              (str_int (TIMEOUT_EXIT_CODE env)))
       \<and> str_contains
           ''    private static final long timeoutNanos = 0 * 1_000_000L; // Convert to nanoseconds\<newline>''
           (resource_limit_java ''0'' (str_int (or_zero (memory_limit self)))
              (str_int (TIMEOUT_EXIT_CODE env)))\<close>
proof (intro conjI)
  have z: "str_int (or_zero (timeout self)) = ''0''"
    using assms(2)
    by (simp add: or_zero_def truthy_def str_int_def str_nat_digit digit_char_def
        split: option.splits)
  have g: "guarded self tmp_path script"
    using assms by (simp add: guarded_def)
  show "fst (setup_command self env tmp_path script fs) (tmp_path @ ''/ResourceLimit.java'') =
      Some (resource_limit_java ''0'' (str_int (or_zero (memory_limit self)))
              (str_int (TIMEOUT_EXIT_CODE env)))"
    using g guard_path_not_source [of tmp_path script]
    by (simp add: setup_command_files Let_def z)
  have n0: "numeric ''0''"
    by (simp add: numeric_def)
  show "call_args ''Thread.sleep(''
      (resource_limit_java ''0'' (str_int (or_zero (memory_limit self)))
         (str_int (TIMEOUT_EXIT_CODE env))) = [''0'', ''100'']"
    by (rule sleep_calls [OF n0 numeric_str_int numeric_str_int])
  show \<open>str_contains
      (''                Thread.sleep('' @ ''0'' @ '');\<newline>'' @
       ''                System.err.println("Suicide from timeout.");\<newline>'' @
       ''                System.exit('' @ str_int (TIMEOUT_EXIT_CODE env) @ '');\<newline>'')
      (resource_limit_java ''0'' (str_int (or_zero (memory_limit self)))
         (str_int (TIMEOUT_EXIT_CODE env)))\<close>
    by (rule timeout_watchdog_text)
  let ?kw = "[(''timeout'', ''0''), (''memory_limit'', str_int (or_zero (memory_limit self))),
    (''TIMEOUT_EXIT_CODE'', str_int (TIMEOUT_EXIT_CODE env))]"
  have "concat (map (render ?kw) (take 3 (drop 8 template_pieces))) =
      ''    private static final long timeoutNanos = 0 * 1_000_000L; // Convert to nanoseconds\<newline>''"
    by (simp add: template_pieces_def)
  then show "str_contains
      ''    private static final long timeoutNanos = 0 * 1_000_000L; // Convert to nanoseconds\<newline>''
      (resource_limit_java ''0'' (str_int (or_zero (memory_limit self)))
         (str_int (TIMEOUT_EXIT_CODE env)))"
    using str_contains_chunk [of "render ?kw" 3 8 template_pieces]
    by (simp only: render_template_pieces)
qed

theorem zero_timeout_guard_witness:
  "\<not> is_kotlin (detect_dialect ''/tmp/x'' ''System.out.println(42);'')
   \<and> \<not> truthy (timeout memory_executor) \<and> truthy (memory_limit memory_executor)
   \<and> fst (setup_command memory_executor exit_zero_module ''/tmp/x'' ''System.out.println(42);''
         Map.empty) ''/tmp/x/ResourceLimit.java''
     = Some (resource_limit_java ''0'' ''1048576'' ''124'')
   \<and> call_args ''Thread.sleep('' (resource_limit_java ''0'' ''1048576'' ''124'') = [''0'', ''100'']"
proof -
  have h: "\<not> is_kotlin (detect_dialect ''/tmp/x'' ''System.out.println(42);'')"
    "\<not> truthy (timeout memory_executor)" "truthy (memory_limit memory_executor)"
    by code_simp+
  have v: "str_int (TIMEOUT_EXIT_CODE exit_zero_module) = ''124''"
    "str_int (or_zero (memory_limit memory_executor)) = ''1048576''"
    by (simp_all add: exit_zero_module_def memory_executor_def or_zero_def str_int_def
        str_nat_digit str_nat_more digit_char_def)
  from zero_timeout_guard [OF h, of exit_zero_module Map.empty] h show ?thesis
    unfolding v by simp
qed

end
